theory Spec2Isabelle
  imports Complex_Main "HOL-Library.Monad_Syntax" "HOL-Library.AList"
begin

section \<open>Values, documents and Python truthiness\<close>

text \<open>
  Documents and request payloads are Python dicts of JSON-like values. A dict is an
  association list (insertion order kept, lookup by \<open>map_of\<close>); \<open>JId\<close> stands for the
  identifier the store assigns to a document.
\<close>

datatype jvalue =
    JNull
  | JBool bool
  | JInt int
  | JFloat real
  | JStr string
  | JList "jvalue list"
  | JDict "(string \<times> jvalue) list"
  | JId nat

type_synonym document = "(string \<times> jvalue) list"

text \<open>
  The truth value of an \<open>Optional[str]\<close>, as in \<open>if os.getenv(...)\<close>: None and the empty
  string are falsy.
\<close>

definition truthy_str :: "string option \<Rightarrow> bool" where
  "truthy_str x = (case x of None \<Rightarrow> False | Some s \<Rightarrow> s \<noteq> [])"

section \<open>The filter built by \<open>list_projects\<close>\<close>

text \<open>
  Lines 183 to 193 of main.py: the dict \<open>query\<close> starts empty and receives the keys
  \<open>domain\<close>, \<open>year\<close> and \<open>$or\<close>, in this order, each under its own truthiness test:
  \<open>if domain:\<close> and \<open>if q:\<close> fail for None and for the empty string, \<open>if year:\<close> fails for
  None and for 0.
\<close>

definition regex_clause :: "string \<Rightarrow> string \<Rightarrow> jvalue" where
  "regex_clause field q = JDict [(field, JDict [(''$regex'', JStr q), (''$options'', JStr ''i'')])]"

definition projects_query :: "string option \<Rightarrow> int option \<Rightarrow> string option \<Rightarrow> document" where
  "projects_query domain year q =
     (case domain of None \<Rightarrow> [] | Some d \<Rightarrow> if d = [] then [] else [(''domain'', JStr d)])
   @ (case year of None \<Rightarrow> [] | Some y \<Rightarrow> if y = 0 then [] else [(''year'', JInt y)])
   @ (case q of None \<Rightarrow> [] | Some t \<Rightarrow> if t = [] then []
        else [(''$or'', JList [regex_clause ''title'' t, regex_clause ''summary'' t,
                               regex_clause ''tags'' t])])"

section \<open>The document store\<close>

text \<open>
  Modelled from the spec: the module \<open>database\<close> (the handle \<open>db\<close>, \<open>create_document\<close>,
  \<open>get_documents\<close>) and the store behind it are not among the sources. The spec gives the
  adapter as \<open>insert(collection, document) -> id\<close>, \<open>find(collection, filter)\<close>,
  \<open>count(collection, filter)\<close> and \<open>listCollections()\<close>; documents are keyed by a
  store-assigned identifier, an inserted document is returned by later finds, and finds
  return the matching documents in store order.

  The handle \<open>db\<close> is \<open>None\<close> when the store is unavailable. A store that is configured
  may still fail after connection: \<open>fault\<close> holds the text of the exception every
  operation then raises. \<open>db_name\<close> is the attribute \<open>name\<close> of the handle, read by
  \<open>getattr(db, 'name', None)\<close>.
\<close>

record store =
  db_name :: "string option"
  colls :: "(string \<times> document list) list"
  next_id :: nat
  fault :: "string option"

type_synonym database = "store option"

text \<open>
  The store's regular-expression search is a parameter: pattern, options, subject.
\<close>

type_synonym regex = "string \<Rightarrow> string \<Rightarrow> string \<Rightarrow> bool"

text \<open>
  A condition on a field holds when the field's value satisfies it or, for an array, when
  the array or one of its elements does.
\<close>

definition field_sat :: "(jvalue \<Rightarrow> bool) \<Rightarrow> document \<Rightarrow> string \<Rightarrow> bool" where
  "field_sat P d k =
     (case map_of d k of
        None \<Rightarrow> False
      | Some (JList xs) \<Rightarrow> P (JList xs) \<or> list_ex P xs
      | Some v \<Rightarrow> P v)"

definition regex_cond :: "regex \<Rightarrow> string \<Rightarrow> string \<Rightarrow> jvalue \<Rightarrow> bool" where
  "regex_cond rx pat opts v = (case v of JStr s \<Rightarrow> rx pat opts s | _ \<Rightarrow> False)"

text \<open>
  The value under a field name is either an operator dict with \<open>$regex\<close> (and maybe
  \<open>$options\<close>) or a plain value to be equal to.
\<close>

definition condition :: "regex \<Rightarrow> jvalue \<Rightarrow> jvalue \<Rightarrow> bool" where
  "condition rx spec v =
     (case spec of
        JDict ops \<Rightarrow>
          (case map_of ops ''$regex'' of
             Some (JStr pat) \<Rightarrow>
               regex_cond rx pat
                 (case map_of ops ''$options'' of Some (JStr os) \<Rightarrow> os | _ \<Rightarrow> []) v
           | _ \<Rightarrow> v = spec)
      | _ \<Rightarrow> v = spec)"

definition matches_fields :: "regex \<Rightarrow> document \<Rightarrow> document \<Rightarrow> bool" where
  "matches_fields rx query d = list_all (\<lambda>(k, spec). field_sat (condition rx spec) d k) query"

text \<open>The keys of a filter are conjoined; \<open>$or\<close> holds a list of alternative filters.\<close>

definition matches :: "regex \<Rightarrow> document \<Rightarrow> document \<Rightarrow> bool" where
  "matches rx query d =
     list_all (\<lambda>(k, spec).
        if k = ''$or''
        then (case spec of
                JList alts \<Rightarrow>
                  list_ex (\<lambda>alt. case alt of JDict fs \<Rightarrow> matches_fields rx fs d | _ \<Rightarrow> False) alts
              | _ \<Rightarrow> False)
        else field_sat (condition rx spec) d k) query"

definition field_equals :: "document \<Rightarrow> string \<Rightarrow> jvalue \<Rightarrow> bool" where
  "field_equals d k v = field_sat (\<lambda>x. x = v) d k"

definition field_regex :: "regex \<Rightarrow> document \<Rightarrow> string \<Rightarrow> string \<Rightarrow> bool" where
  "field_regex rx d k pat = field_sat (regex_cond rx pat ''i'') d k"

subsection \<open>Substring search\<close>

fun starts_with :: "string \<Rightarrow> string \<Rightarrow> bool" where
  "starts_with s [] = True"
| "starts_with [] (p # ps) = False"
| "starts_with (c # cs) (p # ps) = (c = p \<and> starts_with cs ps)"

fun contains :: "string \<Rightarrow> string \<Rightarrow> bool" where
  "contains [] p = (p = [])"
| "contains (c # cs) p = (starts_with (c # cs) p \<or> contains cs p)"

definition lower :: "char \<Rightarrow> char" where
  "lower c = (let n = (of_char c :: nat) in if 65 \<le> n \<and> n \<le> 90 then char_of (n + 32) else c)"

definition ci_contains :: "string \<Rightarrow> string \<Rightarrow> bool" where
  "ci_contains s p = contains (map lower s) (map lower p)"

text \<open>
  What the store's search does on a pattern without metacharacters: the pattern is found
  as a substring, ignoring case when the options hold \<open>i\<close>.
\<close>

definition literal_regex :: regex where
  "literal_regex pat opts s = (if CHR ''i'' \<in> set opts then ci_contains s pat else contains s pat)"


subsection \<open>Adapter operations\<close>

text \<open>
  Every failure of the model is a value of \<open>error\<close>: the \<open>HTTPException\<close> the handlers
  raise (status code and detail), the validation error of a schema (with the name of the
  schema), and the exception of a store operation (with its text).
\<close>

datatype error =
    HTTPException nat string
  | ValidationError string
  | StoreError string

fun str :: "error \<Rightarrow> string" where
  "str (HTTPException code detail) = detail"
| "str (ValidationError schema) = ''validation error for '' @ schema"
| "str (StoreError msg) = msg"

definition unavailable :: error where
  "unavailable = StoreError ''Database not available''"

definition docs_of :: "store \<Rightarrow> string \<Rightarrow> document list" where
  "docs_of st coll = (case map_of (colls st) coll of None \<Rightarrow> [] | Some ds \<Rightarrow> ds)"

text \<open>
  Modelled from the spec: \<open>insert\<close> persists the document under a fresh identifier, kept
  in the document as \<open>_id\<close>, at the end of its collection, and returns the identifier.
\<close>

definition insert_one :: "store \<Rightarrow> string \<Rightarrow> document \<Rightarrow> error + (nat \<times> store)" where
  "insert_one st coll doc =
     (case fault st of
        Some msg \<Rightarrow> Inl (StoreError msg)
      | None \<Rightarrow>
          Inr (next_id st,
               st\<lparr>colls := AList.update coll (docs_of st coll @ [(''_id'', JId (next_id st)) # doc])
                                (colls st),
                  next_id := Suc (next_id st)\<rparr>))"

text \<open>Modelled from the spec: \<open>count\<close> is the number of documents matching the filter.\<close>

definition count_documents :: "regex \<Rightarrow> database \<Rightarrow> string \<Rightarrow> document \<Rightarrow> error + nat" where
  "count_documents rx db coll query =
     (case db of
        None \<Rightarrow> Inl unavailable
      | Some st \<Rightarrow>
          (case fault st of
             Some msg \<Rightarrow> Inl (StoreError msg)
           | None \<Rightarrow> Inr (length (filter (matches rx query) (docs_of st coll)))))"

text \<open>Modelled from the spec: \<open>listCollections\<close> gives the names of the collections.\<close>

definition list_collection_names :: "store \<Rightarrow> error + string list" where
  "list_collection_names st =
     (case fault st of Some msg \<Rightarrow> Inl (StoreError msg) | None \<Rightarrow> Inr (map fst (colls st)))"

text \<open>
  Modelled from the spec: \<open>create_document\<close> and \<open>get_documents\<close> work on the handle
  \<open>db\<close> and fail when it is unset. The new handle is returned with the result.
\<close>

definition create_document :: "database \<Rightarrow> string \<Rightarrow> document \<Rightarrow> (error + nat) \<times> database" where
  "create_document db coll doc =
     (case db of
        None \<Rightarrow> (Inl unavailable, db)
      | Some st \<Rightarrow>
          (case insert_one st coll doc of
             Inl e \<Rightarrow> (Inl e, db)
           | Inr (i, st') \<Rightarrow> (Inr i, Some st')))"

definition get_documents :: "regex \<Rightarrow> database \<Rightarrow> string \<Rightarrow> document \<Rightarrow> error + document list" where
  "get_documents rx db coll query =
     (case db of
        None \<Rightarrow> Inl unavailable
      | Some st \<Rightarrow>
          (case fault st of
             Some msg \<Rightarrow> Inl (StoreError msg)
           | None \<Rightarrow> Inr (filter (matches rx query) (docs_of st coll))))"

section \<open>Schemas\<close>

text \<open>
  schemas.py declares each entity as a pydantic model. What pydantic accepts for a scalar
  annotation (\<open>str\<close>, \<open>int\<close>, \<open>HttpUrl\<close>, \<open>Dict[str, Any]\<close>) is a parameter of the model: a
  coercion gives the typed value or \<open>None\<close> when the value is rejected. The shape of a
  model is taken from the class: which fields are required, which have a default, which
  are \<open>Optional\<close>, lists and \<open>Literal\<close>s.
\<close>

record coercion =
  as_str :: "jvalue \<Rightarrow> string option"
  as_int :: "jvalue \<Rightarrow> int option"
  as_url :: "jvalue \<Rightarrow> string option"
  as_dict :: "jvalue \<Rightarrow> document option"

text \<open>A field without default: its absence is an error.\<close>

definition required :: "(jvalue \<Rightarrow> 'a option) \<Rightarrow> document \<Rightarrow> string \<Rightarrow> 'a option" where
  "required f p k = (case map_of p k of None \<Rightarrow> None | Some v \<Rightarrow> f v)"

text \<open>A field with a default: its absence gives the default, its presence is validated.\<close>

definition with_default :: "'a \<Rightarrow> (jvalue \<Rightarrow> 'a option) \<Rightarrow> document \<Rightarrow> string \<Rightarrow> 'a option" where
  "with_default dflt f p k = (case map_of p k of None \<Rightarrow> Some dflt | Some v \<Rightarrow> f v)"

text \<open>\<open>Optional[T]\<close>: \<open>None\<close> is accepted as it is.\<close>

definition optional :: "(jvalue \<Rightarrow> 'a option) \<Rightarrow> jvalue \<Rightarrow> 'a option option" where
  "optional f v = (case v of JNull \<Rightarrow> Some None | _ \<Rightarrow> map_option Some (f v))"

text \<open>\<open>List[T]\<close>: a list each of whose items is accepted.\<close>

definition list_of :: "(jvalue \<Rightarrow> 'a option) \<Rightarrow> jvalue \<Rightarrow> 'a list option" where
  "list_of f v = (case v of JList xs \<Rightarrow> those (map f xs) | _ \<Rightarrow> None)"

text \<open>\<open>Literal[...]\<close>: one of the listed strings.\<close>

definition literal :: "string list \<Rightarrow> jvalue \<Rightarrow> string option" where
  "literal allowed v = (case v of JStr s \<Rightarrow> if s \<in> set allowed then Some s else None | _ \<Rightarrow> None)"

definition Project_domains :: "string list" where
  "Project_domains =
     [''ML'', ''Analytics'', ''Visualization'', ''NLP'', ''CV'', ''Time Series'', ''MLOps'', ''Other'']"

definition Publication_kinds :: "string list" where
  "Publication_kinds = [''paper'', ''talk'', ''workshop'']"

record Project =
  title :: string
  slug :: string
  summary :: string
  domain :: string
  stack :: "string list"
  year :: int
  problem :: string
  approach :: string
  dataset :: string
  model :: string
  results :: string
  impact :: string
  github_url :: "string option"
  demo_url :: "string option"
  tags :: "string list"
  plotly_fig :: "document option"

record Publication =
  title :: string
  venue :: string
  year :: int
  authors :: "string list"
  link :: "string option"
  slides_url :: "string option"
  kind :: string

record BlogPost =
  title :: string
  slug :: string
  excerpt :: string
  body :: string
  topics :: "string list"
  published_at :: string

record ContactMessage =
  name :: string
  email :: string
  message :: string
  source :: "string option"

text \<open>
  Constructing a model from keyword arguments, \<open>Project(**kwargs)\<close>: \<open>None\<close> is the
  validation error. Keys that are no field of the model are ignored.
\<close>

definition validate_Project :: "coercion \<Rightarrow> document \<Rightarrow> Project option" where
  "validate_Project c p = do {
     v_title \<leftarrow> required (as_str c) p ''title'';
     v_slug \<leftarrow> required (as_str c) p ''slug'';
     v_summary \<leftarrow> required (as_str c) p ''summary'';
     v_domain \<leftarrow> required (literal Project_domains) p ''domain'';
     v_stack \<leftarrow> with_default [] (list_of (as_str c)) p ''stack'';
     v_year \<leftarrow> required (as_int c) p ''year'';
     v_problem \<leftarrow> required (as_str c) p ''problem'';
     v_approach \<leftarrow> required (as_str c) p ''approach'';
     v_dataset \<leftarrow> required (as_str c) p ''dataset'';
     v_model \<leftarrow> required (as_str c) p ''model'';
     v_results \<leftarrow> required (as_str c) p ''results'';
     v_impact \<leftarrow> required (as_str c) p ''impact'';
     v_github_url \<leftarrow> with_default None (optional (as_url c)) p ''github_url'';
     v_demo_url \<leftarrow> with_default None (optional (as_url c)) p ''demo_url'';
     v_tags \<leftarrow> with_default [] (list_of (as_str c)) p ''tags'';
     v_plotly_fig \<leftarrow> with_default None (optional (as_dict c)) p ''plotly_fig'';
     Some \<lparr>Project.title = v_title, slug = v_slug, summary = v_summary, domain = v_domain,
           stack = v_stack, year = v_year, problem = v_problem, approach = v_approach,
           dataset = v_dataset, model = v_model, results = v_results, impact = v_impact,
           github_url = v_github_url, demo_url = v_demo_url, tags = v_tags,
           plotly_fig = v_plotly_fig\<rparr>
   }"

definition validate_Publication :: "coercion \<Rightarrow> document \<Rightarrow> Publication option" where
  "validate_Publication c p = do {
     v_title \<leftarrow> required (as_str c) p ''title'';
     v_venue \<leftarrow> required (as_str c) p ''venue'';
     v_year \<leftarrow> required (as_int c) p ''year'';
     v_authors \<leftarrow> required (list_of (as_str c)) p ''authors'';
     v_link \<leftarrow> with_default None (optional (as_url c)) p ''link'';
     v_slides_url \<leftarrow> with_default None (optional (as_url c)) p ''slides_url'';
     v_kind \<leftarrow> with_default ''paper'' (literal Publication_kinds) p ''kind'';
     Some \<lparr>Publication.title = v_title, venue = v_venue, year = v_year, authors = v_authors,
           link = v_link, slides_url = v_slides_url, kind = v_kind\<rparr>
   }"

definition validate_BlogPost :: "coercion \<Rightarrow> document \<Rightarrow> BlogPost option" where
  "validate_BlogPost c p = do {
     v_title \<leftarrow> required (as_str c) p ''title'';
     v_slug \<leftarrow> required (as_str c) p ''slug'';
     v_excerpt \<leftarrow> required (as_str c) p ''excerpt'';
     v_body \<leftarrow> required (as_str c) p ''body'';
     v_topics \<leftarrow> with_default [] (list_of (as_str c)) p ''topics'';
     v_published_at \<leftarrow> required (as_str c) p ''published_at'';
     Some \<lparr>BlogPost.title = v_title, slug = v_slug, excerpt = v_excerpt, body = v_body,
           topics = v_topics, published_at = v_published_at\<rparr>
   }"

definition validate_ContactMessage :: "coercion \<Rightarrow> document \<Rightarrow> ContactMessage option" where
  "validate_ContactMessage c p = do {
     v_name \<leftarrow> required (as_str c) p ''name'';
     v_email \<leftarrow> required (as_str c) p ''email'';
     v_message \<leftarrow> required (as_str c) p ''message'';
     v_source \<leftarrow> with_default None (optional (as_str c)) p ''source'';
     Some \<lparr>name = v_name, email = v_email, message = v_message, source = v_source\<rparr>
   }"

text \<open>
  Modelled from the spec: a typed entity handed to \<open>create_document\<close> is stored as the
  raw mapping of its fields, an absent optional field as null.
\<close>

definition opt_str :: "string option \<Rightarrow> jvalue" where
  "opt_str x = (case x of None \<Rightarrow> JNull | Some s \<Rightarrow> JStr s)"

definition dump_Project :: "Project \<Rightarrow> document" where
  "dump_Project r =
     [(''title'', JStr (Project.title r)), (''slug'', JStr (Project.slug r)),
      (''summary'', JStr (summary r)), (''domain'', JStr (domain r)),
      (''stack'', JList (map JStr (stack r))), (''year'', JInt (Project.year r)),
      (''problem'', JStr (problem r)), (''approach'', JStr (approach r)),
      (''dataset'', JStr (dataset r)), (''model'', JStr (model r)),
      (''results'', JStr (results r)), (''impact'', JStr (impact r)),
      (''github_url'', opt_str (github_url r)), (''demo_url'', opt_str (demo_url r)),
      (''tags'', JList (map JStr (tags r))),
      (''plotly_fig'', case plotly_fig r of None \<Rightarrow> JNull | Some f \<Rightarrow> JDict f)]"

definition dump_ContactMessage :: "ContactMessage \<Rightarrow> document" where
  "dump_ContactMessage m =
     [(''name'', JStr (name m)), (''email'', JStr (email m)), (''message'', JStr (message m)),
      (''source'', opt_str (source m))]"

text \<open>
  A coercion that accepts the values already of the annotated type, and as a URL a string
  with scheme \<open>http\<close> or \<open>https\<close> and a host.
\<close>

definition http_url :: "string \<Rightarrow> bool" where
  "http_url s =
     ((starts_with s ''http://'' \<and> drop 7 s \<noteq> [] \<and> hd (drop 7 s) \<noteq> CHR ''/'')
    \<or> (starts_with s ''https://'' \<and> drop 8 s \<noteq> [] \<and> hd (drop 8 s) \<noteq> CHR ''/''))"

definition plain_coercion :: coercion where
  "plain_coercion =
     \<lparr>as_str = (\<lambda>v. case v of JStr s \<Rightarrow> Some s | _ \<Rightarrow> None),
      as_int = (\<lambda>v. case v of JInt i \<Rightarrow> Some i | _ \<Rightarrow> None),
      as_url = (\<lambda>v. case v of JStr s \<Rightarrow> if http_url s then Some s else None | _ \<Rightarrow> None),
      as_dict = (\<lambda>v. case v of JDict d \<Rightarrow> Some d | _ \<Rightarrow> None)\<rparr>"


section \<open>Request handlers\<close>

subsection \<open>GET /test\<close>

text \<open>
  The three pictographs of the status strings are written as their UTF-8 bytes; the text
  of an exception is cut to its first 80 characters.
\<close>

definition check_mark :: string where
  "check_mark = [CHR 0xE2, CHR 0x9C, CHR 0x85]"

definition cross_mark :: string where
  "cross_mark = [CHR 0xE2, CHR 0x9D, CHR 0x8C]"

definition warning_sign :: string where
  "warning_sign = [CHR 0xE2, CHR 0x9A, CHR 0xA0, CHR 0xEF, CHR 0xB8, CHR 0x8F]"

record response =
  backend :: string
  database :: string
  database_url :: "string option"
  database_name :: "string option"
  connection_status :: string
  collections :: "string list"

type_synonym environ = "string \<Rightarrow> string option"

definition set_or_not :: "environ \<Rightarrow> string \<Rightarrow> string" where
  "set_or_not env var =
     (if truthy_str (env var) then check_mark @ '' Set'' else cross_mark @ '' Not Set'')"

text \<open>
  The inner \<open>try\<close>: listing the collections, the first ten kept; an exception is caught
  and written into the \<open>database\<close> entry.
\<close>

definition probe_collections :: "store \<Rightarrow> response \<Rightarrow> error option \<times> response" where
  "probe_collections st r =
     (case list_collection_names st of
        Inr names \<Rightarrow> (None, r\<lparr>collections := take 10 names\<rparr>)
      | Inl e \<Rightarrow>
          (None, r\<lparr>database := warning_sign @ '' Connected but error: '' @ take 80 (str e)\<rparr>))"

text \<open>
  The body of the outer \<open>try\<close>: the exception that leaves it, if any, and the response
  dict as updated so far.
\<close>

definition probe :: "environ \<Rightarrow> database \<Rightarrow> response \<Rightarrow> error option \<times> response" where
  "probe env db r =
     (case db of
        Some st \<Rightarrow>
          probe_collections st
            (r\<lparr>database := check_mark @ '' Connected & Working'',
               database_url := Some (set_or_not env ''DATABASE_URL''),
               database_name :=
                 Some (case db_name st of
                         None \<Rightarrow> set_or_not env ''DATABASE_NAME''
                       | Some n \<Rightarrow> if n = [] then set_or_not env ''DATABASE_NAME'' else n),
               connection_status := ''Connected''\<rparr>)
      | None \<Rightarrow> (None, r\<lparr>database := warning_sign @ '' Available but not initialized''\<rparr>))"

definition test_database :: "environ \<Rightarrow> database \<Rightarrow> error + response" where
  "test_database env db =
     (let response =
        \<lparr>backend = check_mark @ '' Running'',
         database = cross_mark @ '' Not Available'',
         database_url = None,
         database_name = None,
         connection_status = ''Not Connected'',
         collections = []\<rparr>
      in case probe env db response of
           (None, r) \<Rightarrow> Inr r
         | (Some e, r) \<Rightarrow> Inr (r\<lparr>database := cross_mark @ '' Error: '' @ take 80 (str e)\<rparr>))"

subsection \<open>GET /projects, /publications, /blog\<close>

definition strip_id :: "document \<Rightarrow> document" where
  "strip_id d = filter (\<lambda>(k, v). k \<noteq> ''_id'') d"

text \<open>
  \<open>[Project(**{...}) for d in docs]\<close>: the first document that fails validation raises,
  so the list is returned only when every document validates.
\<close>

definition coerce_all :: "string \<Rightarrow> (document \<Rightarrow> 'a option) \<Rightarrow> document list \<Rightarrow> error + 'a list" where
  "coerce_all schema validate docs =
     (case those (map (\<lambda>d. validate (strip_id d)) docs) of
        None \<Rightarrow> Inl (ValidationError schema)
      | Some xs \<Rightarrow> Inr xs)"

definition list_projects ::
  "coercion \<Rightarrow> regex \<Rightarrow> database \<Rightarrow> string option \<Rightarrow> int option \<Rightarrow> string option \<Rightarrow> error + Project list"
where
  "list_projects c rx db domain' year' q =
     (case db of
        None \<Rightarrow> Inr []
      | Some st \<Rightarrow>
          (case get_documents rx db ''project'' (projects_query domain' year' q) of
             Inl e \<Rightarrow> Inl e
           | Inr docs \<Rightarrow> coerce_all ''Project'' (validate_Project c) docs))"

definition list_publications :: "coercion \<Rightarrow> regex \<Rightarrow> database \<Rightarrow> error + Publication list" where
  "list_publications c rx db =
     (case db of
        None \<Rightarrow> Inr []
      | Some st \<Rightarrow>
          (case get_documents rx db ''publication'' [] of
             Inl e \<Rightarrow> Inl e
           | Inr docs \<Rightarrow> coerce_all ''Publication'' (validate_Publication c) docs))"

definition list_blog :: "coercion \<Rightarrow> regex \<Rightarrow> database \<Rightarrow> error + BlogPost list" where
  "list_blog c rx db =
     (case db of
        None \<Rightarrow> Inr []
      | Some st \<Rightarrow>
          (case get_documents rx db ''blogpost'' [] of
             Inl e \<Rightarrow> Inl e
           | Inr docs \<Rightarrow> coerce_all ''BlogPost'' (validate_BlogPost c) docs))"

subsection \<open>POST /contact\<close>

definition not_configured :: error where
  "not_configured = HTTPException 500 ''Database not configured''"

definition submit_contact :: "database \<Rightarrow> ContactMessage \<Rightarrow> (error + document) \<times> database" where
  "submit_contact db msg =
     (case db of
        None \<Rightarrow> (Inl not_configured, db)
      | Some st \<Rightarrow>
          (case create_document db ''contactmessage'' (dump_ContactMessage msg) of
             (Inl e, db') \<Rightarrow> (Inl e, db')
           | (Inr i, db') \<Rightarrow> (Inr [(''status'', JStr ''received'')], db')))"

text \<open>
  The route declares its body as \<open>msg: ContactMessage\<close>: the request payload is validated
  against the schema before the handler runs, and a payload that fails never reaches it.
\<close>

definition post_contact :: "coercion \<Rightarrow> database \<Rightarrow> document \<Rightarrow> (error + document) \<times> database" where
  "post_contact c db payload =
     (case validate_ContactMessage c payload of
        None \<Rightarrow> (Inl (ValidationError ''ContactMessage''), db)
      | Some msg \<Rightarrow> submit_contact db msg)"


subsection \<open>POST /seed\<close>

text \<open>The keyword arguments of the three \<open>Project(...)\<close> calls, lines 60 to 111.\<close>

definition project_samples :: "document list" where
  "project_samples =
     [[(''title'', JStr ''Customer Churn Prediction''),
       (''slug'', JStr ''customer-churn-prediction''),
       (''summary'', JStr ''Predict churn with explainable ML to prioritize retention actions.''),
       (''domain'', JStr ''ML''),
       (''stack'', JList [JStr ''Python'', JStr ''scikit-learn'', JStr ''XGBoost'', JStr ''SHAP'']),
       (''year'', JInt 2023),
       (''problem'', JStr ''Identify customers likely to churn in the next 60 days.''),
       (''approach'',
          JStr ''Feature engineering + gradient boosting with class-weighting and calibration.''),
       (''dataset'', JStr ''Telco churn dataset + proprietary CRM features.''),
       (''model'', JStr ''XGBoost with Bayesian optimization; SHAP for interpretability.''),
       (''results'', JStr ''AUC 0.89, recall 76% at 15% alert rate.''),
       (''impact'', JStr ''Reduced churn by 5.2% in pilot, saving ~$1.1M ARR.''),
       (''github_url'', JStr ''https://github.com/''),
       (''tags'', JList [JStr ''classification'', JStr ''retention'', JStr ''explainability'']),
       (''plotly_fig'',
          JDict [(''data'',
                    JList [JDict [(''type'', JStr ''bar''),
                                  (''x'', JList [JStr ''Contract'', JStr ''Tenure'',
                                                 JStr ''MonthlyCharges'']),
                                  (''y'', JList [JFloat 0.34, JFloat 0.27, JFloat 0.18])]]),
                 (''layout'', JDict [(''title'', JStr ''Top Features (SHAP)'')])])],
      [(''title'', JStr ''Demand Forecasting with Hierarchical Time Series''),
       (''slug'', JStr ''demand-forecasting-hts''),
       (''summary'', JStr ''Weekly forecasts across 120 SKUs with reconciliation and uncertainty.''),
       (''domain'', JStr ''Time Series''),
       (''stack'', JList [JStr ''Python'', JStr ''Prophet'', JStr ''statsmodels'',
                          JStr ''scikit-learn'']),
       (''year'', JInt 2022),
       (''problem'', JStr ''Improve inventory planning across regions and SKUs.''),
       (''approach'',
          JStr ''Feature-rich SARIMAX + gradient boosting for residuals; hierarchical reconciliation.''),
       (''dataset'', JStr ''Sales transactions 3 years + promo calendar.''),
       (''model'', JStr ''SARIMAX + LightGBM residual model.''),
       (''results'', JStr ''MAPE 8.6% overall; stockouts down 23%.''),
       (''impact'', JStr ''Saved $420k in holding and lost sales.''),
       (''github_url'', JStr ''https://github.com/''),
       (''tags'', JList [JStr ''forecasting'', JStr ''inventory'', JStr ''hts''])],
      [(''title'', JStr ''Interactive Mobility Dashboard''),
       (''slug'', JStr ''mobility-dashboard''),
       (''summary'', JStr ''City mobility patterns explored via interactive geovisualizations.''),
       (''domain'', JStr ''Visualization''),
       (''stack'', JList [JStr ''Python'', JStr ''Altair'', JStr ''Deck.gl'']),
       (''year'', JInt 2024),
       (''problem'', JStr ''Understand peak congestion corridors.''),
       (''approach'',
          JStr ''Aggregated GPS pings and derived OD matrices; built interactive views.''),
       (''dataset'', JStr ''1.2B GPS pings over 6 months.''),
       (''model'', JStr ''Clustering + KDE for hotspots.''),
       (''results'', JStr ''Revealed 3 critical choke points.''),
       (''impact'', JStr ''Informed signal timing policy saving ~8% commute time.''),
       (''github_url'', JStr ''https://github.com/''),
       (''tags'', JList [JStr ''geospatial'', JStr ''altair'', JStr ''dashboard''])]]"

definition pubs :: "document list" where
  "pubs =
     [[(''title'', JStr ''Storytelling with Data: From Insight to Impact''),
       (''venue'', JStr ''Global Data Summit''),
       (''year'', JInt 2024),
       (''authors'', JList [JStr ''Muhamad Juwandi'']),
       (''slides_url'', JStr ''https://slides.com/''),
       (''kind'', JStr ''talk'')],
      [(''title'', JStr ''Robust ML Pipelines with MLOps''),
       (''venue'', JStr ''PyData''),
       (''year'', JInt 2023),
       (''authors'', JList [JStr ''Muhamad Juwandi'']),
       (''slides_url'', JStr ''https://slides.com/''),
       (''kind'', JStr ''workshop'')]]"

definition posts :: "document list" where
  "posts =
     [[(''title'', JStr ''Designing Ethical AI Systems''),
       (''slug'', JStr ''ethical-ai''),
       (''excerpt'', JStr ''Principles and practical checklists for responsible ML.''),
       (''body'', JStr ''Long-form body in Markdown or MDX.''),
       (''topics'', JList [JStr ''ethics'', JStr ''ai'']),
       (''published_at'', JStr ''2024-05-11'')],
      [(''title'', JStr ''Visualization Patterns that Clarify''),
       (''slug'', JStr ''viz-patterns''),
       (''excerpt'', JStr ''Choosing encodings that match mental models.''),
       (''body'', JStr ''Post content...''),
       (''topics'', JList [JStr ''viz'', JStr ''design'']),
       (''published_at'', JStr ''2024-03-03'')],
      [(''title'', JStr ''From Notebook to Production''),
       (''slug'', JStr ''notebook-to-prod''),
       (''excerpt'', JStr ''A compact guide to MLOps for data scientists.''),
       (''body'', JStr ''Post content...''),
       (''topics'', JList [JStr ''mlops'', JStr ''devops'']),
       (''published_at'', JStr ''2023-11-18'')],
      [(''title'', JStr ''R + Python for Analytics''),
       (''slug'', JStr ''r-plus-python''),
       (''excerpt'', JStr ''Leverage strengths of both ecosystems.''),
       (''body'', JStr ''Post content...''),
       (''topics'', JList [JStr ''r'', JStr ''python'']),
       (''published_at'', JStr ''2023-07-07'')]]"

text \<open>
  \<open>samples: List[Project] = [Project(...), ...]\<close>: the list is built, each entry
  validated, before the first insert; each entry is stored as its raw mapping.
\<close>

definition samples :: "coercion \<Rightarrow> error + document list" where
  "samples c =
     (case those (map (validate_Project c) project_samples) of
        None \<Rightarrow> Inl (ValidationError ''Project'')
      | Some ps \<Rightarrow> Inr (map dump_Project ps))"

text \<open>\<open>for p in samples: create_document(coll, p)\<close>: the first exception ends the loop.\<close>

fun create_documents :: "database \<Rightarrow> string \<Rightarrow> document list \<Rightarrow> error option \<times> database" where
  "create_documents db coll [] = (None, db)"
| "create_documents db coll (d # ds) =
     (case create_document db coll d of
        (Inl e, db') \<Rightarrow> (Some e, db')
      | (Inr i, db') \<Rightarrow> create_documents db' coll ds)"

text \<open>
  One block of \<open>seed_content\<close>: \<open>if db[coll].count_documents({}) == 0:\<close>, then the sample
  list and the loop. The result is the exception that leaves the block, if any, and the
  handle.
\<close>

definition seed_collection ::
  "regex \<Rightarrow> database \<Rightarrow> string \<Rightarrow> error + document list \<Rightarrow> error option \<times> database"
where
  "seed_collection rx db coll docs =
     (case count_documents rx db coll [] of
        Inl e \<Rightarrow> (Some e, db)
      | Inr n \<Rightarrow>
          if n = 0
          then (case docs of
                  Inl e \<Rightarrow> (Some e, db)
                | Inr ds \<Rightarrow> create_documents db coll ds)
          else (None, db))"

definition seed_content :: "coercion \<Rightarrow> regex \<Rightarrow> database \<Rightarrow> (error + document) \<times> database" where
  "seed_content c rx db =
     (case db of
        None \<Rightarrow> (Inl not_configured, db)
      | Some st \<Rightarrow>
          (case seed_collection rx db ''project'' (samples c) of
             (Some e, db1) \<Rightarrow> (Inl e, db1)
           | (None, db1) \<Rightarrow>
               (case seed_collection rx db1 ''publication'' (Inr pubs) of
                  (Some e, db2) \<Rightarrow> (Inl e, db2)
                | (None, db2) \<Rightarrow>
                    (case seed_collection rx db2 ''blogpost'' (Inr posts) of
                       (Some e, db3) \<Rightarrow> (Inl e, db3)
                     | (None, db3) \<Rightarrow> (Inr [(''status'', JStr ''ok'')], db3)))))"

section \<open>The filter as the spec words it\<close>

text \<open>
  The spec's contract for the query builder, taken literally: a parameter counts as given
  when it is not \<open>None\<close>; exact match on \<open>domain\<close> and on \<open>year\<close>; the text found, ignoring
  case, in the title, the summary or one of the tags.
\<close>

definition text_has :: "string \<Rightarrow> document \<Rightarrow> string \<Rightarrow> bool" where
  "text_has t d k = (case map_of d k of Some (JStr s) \<Rightarrow> ci_contains s t | _ \<Rightarrow> False)"

definition any_tag_has :: "string \<Rightarrow> document \<Rightarrow> bool" where
  "any_tag_has t d =
     (case map_of d ''tags'' of
        Some (JList ts) \<Rightarrow> list_ex (\<lambda>x. case x of JStr s \<Rightarrow> ci_contains s t | _ \<Rightarrow> False) ts
      | _ \<Rightarrow> False)"

definition spec_filter :: "string option \<Rightarrow> int option \<Rightarrow> string option \<Rightarrow> document \<Rightarrow> bool" where
  "spec_filter dom_p year_p q d =
     ((case dom_p of None \<Rightarrow> True | Some x \<Rightarrow> map_of d ''domain'' = Some (JStr x))
    \<and> (case year_p of None \<Rightarrow> True | Some y \<Rightarrow> map_of d ''year'' = Some (JInt y))
    \<and> (case q of None \<Rightarrow> True
        | Some t \<Rightarrow> text_has t d ''title'' \<or> text_has t d ''summary'' \<or> any_tag_has t d))"

text \<open>The enum of \<open>domain\<close> as the spec lists it.\<close>

definition spec_domains :: "string list" where
  "spec_domains =
     [''ML'', ''Analytics'', ''Visualization'', ''NLP'', ''CV'', ''TimeSeries'', ''MLOps'', ''Other'']"

section \<open>Example data\<close>

text \<open>Dropping a key from a payload.\<close>

definition omit :: "string \<Rightarrow> document \<Rightarrow> document" where
  "omit k d = filter (\<lambda>(k', v). k' \<noteq> k) d"

text \<open>The first sample project as a stored document, and a store without documents.\<close>

definition churn_document :: document where
  "churn_document = (''_id'', JId 0) # hd project_samples"

definition empty_store :: store where
  "empty_store = \<lparr>db_name = Some ''portfolio'', colls = [], next_id = 0, fault = None\<rparr>"

definition contact_payload :: document where
  "contact_payload =
     [(''name'', JStr ''Ada''), (''email'', JStr ''ada@example.org''),
      (''message'', JStr ''Hello'')]"

definition faulty_store :: store where
  "faulty_store = empty_store\<lparr>fault := Some ''connection refused''\<rparr>"

definition crowded_store :: store where
  "crowded_store =
     empty_store\<lparr>colls := map (\<lambda>n. (n, []))
       [''c01'', ''c02'', ''c03'', ''c04'', ''c05'', ''c06'', ''c07'', ''c08'', ''c09'', ''c10'',
        ''c11'', ''c12'']\<rparr>"

definition one_project_store :: store where
  "one_project_store = empty_store\<lparr>colls := [(''project'', [churn_document])], next_id := 1\<rparr>"

definition no_environ :: environ where
  "no_environ = (\<lambda>var. None)"

text \<open>A store that answers and holds documents in each of the three content collections.\<close>

definition seeded :: "store \<Rightarrow> bool" where
  "seeded st =
     (fault st = None \<and> docs_of st ''project'' \<noteq> [] \<and> docs_of st ''publication'' \<noteq> []
      \<and> docs_of st ''blogpost'' \<noteq> [])"

text \<open>
  A document shaped like a project: \<open>domain\<close>, \<open>year\<close>, \<open>title\<close> and \<open>summary\<close> are no
  arrays, and \<open>tags\<close> is no single string.
\<close>

definition scalar_field :: "document \<Rightarrow> string \<Rightarrow> bool" where
  "scalar_field d k = (case map_of d k of Some (JList xs) \<Rightarrow> False | _ \<Rightarrow> True)"

definition project_shaped :: "document \<Rightarrow> bool" where
  "project_shaped d =
     (scalar_field d ''domain'' \<and> scalar_field d ''year'' \<and> scalar_field d ''title''
      \<and> scalar_field d ''summary''
      \<and> (case map_of d ''tags'' of Some (JStr s) \<Rightarrow> False | _ \<Rightarrow> True))"

text \<open>
  A document that is no project, as another writer to the store may leave it in the
  collection, and a store that holds it after the first sample project.
\<close>

definition draft_document :: document where
  "draft_document = [(''_id'', JId 1), (''title'', JStr ''Draft'')]"

definition broken_store :: store where
  "broken_store =
     empty_store\<lparr>colls := [(''project'', [churn_document, draft_document])], next_id := 2\<rparr>"

section \<open>The query builder\<close>

lemma matches_Nil: "matches rx [] d"
  by (simp add: matches_def)

lemma matches_append: "matches rx (a @ b) d = (matches rx a d \<and> matches rx b d)"
  by (simp add: matches_def)

lemma condition_scalar:
  "condition rx (JStr s) = (\<lambda>x. x = JStr s)"
  "condition rx (JInt n) = (\<lambda>x. x = JInt n)"
  by (simp_all add: condition_def fun_eq_iff)

lemma condition_regex:
  "condition rx (JDict [(''$regex'', JStr t), (''$options'', JStr ''i'')]) = regex_cond rx t ''i''"
  by (simp add: condition_def fun_eq_iff)

lemma matches_equality:
  "matches rx [(''domain'', JStr s)] d = field_equals d ''domain'' (JStr s)"
  "matches rx [(''year'', JInt n)] d = field_equals d ''year'' (JInt n)"
  by (simp_all add: matches_def condition_scalar field_equals_def)

lemma matches_fields_regex:
  "matches_fields rx [(k, JDict [(''$regex'', JStr t), (''$options'', JStr ''i'')])] d
     = field_regex rx d k t"
  by (simp add: matches_fields_def condition_regex field_regex_def)

lemma matches_or:
  "matches rx [(''$or'', JList [regex_clause ''title'' t, regex_clause ''summary'' t,
                               regex_clause ''tags'' t])] d
     = (field_regex rx d ''title'' t \<or> field_regex rx d ''summary'' t
        \<or> field_regex rx d ''tags'' t)"
  by (simp add: matches_def regex_clause_def matches_fields_regex)

text \<open>
  C1, as the spec states it, fails: a parameter that is given but falsy adds no clause.
  With \<open>year = 0\<close> the filter is empty and selects the sample project of 2023, which an
  exact match on year 0 rejects.
\<close>

theorem projects_query_year_zero_counterexample:
  "matches literal_regex (projects_query None (Some 0) None) churn_document
   \<and> \<not> spec_filter None (Some 0) None churn_document"
  by (simp add: projects_query_def matches_def spec_filter_def churn_document_def
        project_samples_def)

text \<open>
  C1, amended: for every combination of \<open>domain\<close>, \<open>year\<close> and \<open>q\<close>, the filter handed to
  the store selects a document exactly when the document has \<open>domain\<close> equal to the
  parameter if that is given and not empty, and \<open>year\<close> equal to the parameter if that is
  given and not 0, and, if \<open>q\<close> is given and not empty, the store's case-insensitive
  \<open>$regex\<close> search for \<open>q\<close> succeeds on the title, the summary or the tags (one tag
  suffices). With all three parameters absent the filter is empty and selects every
  document.
\<close>

theorem projects_query_filter:
  "(matches rx (projects_query d y q) doc \<longleftrightarrow>
      (\<forall>s. d = Some s \<longrightarrow> s \<noteq> [] \<longrightarrow> field_equals doc ''domain'' (JStr s))
    \<and> (\<forall>n. y = Some n \<longrightarrow> n \<noteq> 0 \<longrightarrow> field_equals doc ''year'' (JInt n))
    \<and> (\<forall>t. q = Some t \<longrightarrow> t \<noteq> [] \<longrightarrow>
          field_regex rx doc ''title'' t \<or> field_regex rx doc ''summary'' t
        \<or> field_regex rx doc ''tags'' t))
   \<and> projects_query None None None = []
   \<and> matches rx (projects_query None None None) doc"
  by (simp add: projects_query_def matches_append matches_Nil matches_equality matches_or
        split: option.split)

theorem projects_query_filter_witness:
  "Some ''ML'' = Some ''ML'' \<and> ''ML'' \<noteq> [] \<and> Some (2023::int) = Some 2023 \<and> (2023::int) \<noteq> 0
   \<and> Some ''churn'' = Some ''churn'' \<and> ''churn'' \<noteq> []
   \<and> field_equals churn_document ''domain'' (JStr ''ML'')
   \<and> field_equals churn_document ''year'' (JInt 2023)
   \<and> matches literal_regex (projects_query (Some ''ML'') (Some 2023) (Some ''churn''))
        churn_document
   \<and> \<not> matches literal_regex (projects_query (Some ''NLP'') (Some 2023) (Some ''churn''))
        churn_document"
proof -
  have title: "field_regex literal_regex churn_document ''title'' ''churn''"
    by code_simp
  have dom: "field_equals churn_document ''domain'' (JStr ''ML'')"
    by (simp add: field_equals_def field_sat_def churn_document_def project_samples_def)
  have yr: "field_equals churn_document ''year'' (JInt 2023)"
    by (simp add: field_equals_def field_sat_def churn_document_def project_samples_def)
  have nlp: "\<not> field_equals churn_document ''domain'' (JStr ''NLP'')"
    by (simp add: field_equals_def field_sat_def churn_document_def project_samples_def)
  show ?thesis
    using title dom yr nlp
      projects_query_filter [of literal_regex "Some ''ML''" "Some 2023" "Some ''churn''"
        churn_document]
      projects_query_filter [of literal_regex "Some ''NLP''" "Some 2023" "Some ''churn''"
        churn_document]
    by simp
qed

text \<open>
  C10: a falsy parameter is treated as absent. The empty \<open>domain\<close>, the year 0 and the
  empty \<open>q\<close> give the filter of the absent parameter, and no request yields a filter
  holding the clause \<open>year = 0\<close>: with \<open>year = 0\<close> the year is not constrained at all, so
  documents of any year are selected.
\<close>

theorem falsy_parameter_is_absent:
  "projects_query (Some []) y q = projects_query None y q
   \<and> projects_query d (Some 0) q = projects_query d None q
   \<and> projects_query d y (Some []) = projects_query d y None
   \<and> map_of (projects_query d y q) ''year'' \<noteq> Some (JInt 0)
   \<and> matches rx (projects_query d (Some 0) q) doc = matches rx (projects_query d None q) doc"
  by (simp add: projects_query_def split: option.split)

section \<open>Schema validation\<close>

lemma map_of_omit: "map_of (omit k d) k' = (if k' = k then None else map_of d k')"
  by (induction d) (auto simp: omit_def)

lemma required_omit:
  "required f (omit k p) k' = (if k' = k then None else required f p k')"
  by (simp add: required_def map_of_omit)

lemma with_default_omit:
  "with_default x f (omit k p) k' = (if k' = k then Some x else with_default x f p k')"
  by (simp add: with_default_def map_of_omit)

lemma required_Cons:
  "required f ((k, v) # p) k' = (if k' = k then f v else required f p k')"
  by (simp add: required_def)

lemma with_default_Cons:
  "with_default x f ((k, v) # p) k' = (if k' = k then f v else with_default x f p k')"
  by (simp add: with_default_def)

lemma required_literal:
  "required (literal allowed) p k = Some s \<longleftrightarrow> map_of p k = Some (JStr s) \<and> s \<in> set allowed"
  by (auto simp: required_def literal_def split: option.splits jvalue.splits if_splits)

lemma validate_Project_Some:
  "validate_Project c p = Some r \<longleftrightarrow>
     required (as_str c) p ''title'' = Some (Project.title r)
   \<and> required (as_str c) p ''slug'' = Some (Project.slug r)
   \<and> required (as_str c) p ''summary'' = Some (summary r)
   \<and> required (literal Project_domains) p ''domain'' = Some (domain r)
   \<and> with_default [] (list_of (as_str c)) p ''stack'' = Some (stack r)
   \<and> required (as_int c) p ''year'' = Some (Project.year r)
   \<and> required (as_str c) p ''problem'' = Some (problem r)
   \<and> required (as_str c) p ''approach'' = Some (approach r)
   \<and> required (as_str c) p ''dataset'' = Some (dataset r)
   \<and> required (as_str c) p ''model'' = Some (model r)
   \<and> required (as_str c) p ''results'' = Some (results r)
   \<and> required (as_str c) p ''impact'' = Some (impact r)
   \<and> with_default None (optional (as_url c)) p ''github_url'' = Some (github_url r)
   \<and> with_default None (optional (as_url c)) p ''demo_url'' = Some (demo_url r)
   \<and> with_default [] (list_of (as_str c)) p ''tags'' = Some (tags r)
   \<and> with_default None (optional (as_dict c)) p ''plotly_fig'' = Some (plotly_fig r)"
  by (cases r) (auto simp: validate_Project_def bind_eq_Some_conv)

lemma validate_Publication_Some:
  "validate_Publication c p = Some r \<longleftrightarrow>
     required (as_str c) p ''title'' = Some (Publication.title r)
   \<and> required (as_str c) p ''venue'' = Some (venue r)
   \<and> required (as_int c) p ''year'' = Some (Publication.year r)
   \<and> required (list_of (as_str c)) p ''authors'' = Some (authors r)
   \<and> with_default None (optional (as_url c)) p ''link'' = Some (link r)
   \<and> with_default None (optional (as_url c)) p ''slides_url'' = Some (slides_url r)
   \<and> with_default ''paper'' (literal Publication_kinds) p ''kind'' = Some (kind r)"
  by (cases r) (auto simp: validate_Publication_def bind_eq_Some_conv)

lemma validate_BlogPost_Some:
  "validate_BlogPost c p = Some r \<longleftrightarrow>
     required (as_str c) p ''title'' = Some (BlogPost.title r)
   \<and> required (as_str c) p ''slug'' = Some (BlogPost.slug r)
   \<and> required (as_str c) p ''excerpt'' = Some (excerpt r)
   \<and> required (as_str c) p ''body'' = Some (body r)
   \<and> with_default [] (list_of (as_str c)) p ''topics'' = Some (topics r)
   \<and> required (as_str c) p ''published_at'' = Some (published_at r)"
  by (cases r) (auto simp: validate_BlogPost_def bind_eq_Some_conv)

lemma validate_Project_needs_domain:
  assumes "map_of p ''domain'' \<notin> Some ` JStr ` set Project_domains"
  shows "validate_Project c p = None"
proof (cases "validate_Project c p")
  case None
  then show ?thesis .
next
  case (Some r)
  then have "required (literal Project_domains) p ''domain'' = Some (domain r)"
    by (simp add: validate_Project_Some)
  then have "map_of p ''domain'' = Some (JStr (domain r))" "domain r \<in> set Project_domains"
    by (simp_all add: required_literal)
  with assms show ?thesis by auto
qed

lemma validate_Project_change_domain:
  assumes "validate_Project c p = Some r" and "s \<in> set Project_domains"
  shows "validate_Project c ((''domain'', JStr s) # p) = Some (r\<lparr>domain := s\<rparr>)"
  using assms by (simp add: validate_Project_Some required_Cons with_default_Cons literal_def)

lemma validate_Project_omit_stack:
  assumes "validate_Project c p = Some r"
  shows "validate_Project c (omit ''stack'' p) = Some (r\<lparr>stack := []\<rparr>)"
  using assms by (simp add: validate_Project_Some required_omit with_default_omit)

lemma validate_Project_omit_tags:
  assumes "validate_Project c p = Some r"
  shows "validate_Project c (omit ''tags'' p) = Some (r\<lparr>tags := []\<rparr>)"
  using assms by (simp add: validate_Project_Some required_omit with_default_omit)

lemma validate_BlogPost_omit_topics:
  assumes "validate_BlogPost c p = Some r"
  shows "validate_BlogPost c (omit ''topics'' p) = Some (r\<lparr>topics := []\<rparr>)"
  using assms by (simp add: validate_BlogPost_Some required_omit with_default_omit)

lemma validate_Publication_needs_authors:
  assumes "map_of p ''authors'' = None"
  shows "validate_Publication c p = None"
proof (cases "validate_Publication c p")
  case None
  then show ?thesis .
next
  case (Some r)
  then have "required (list_of (as_str c)) p ''authors'' = Some (authors r)"
    by (simp add: validate_Publication_Some)
  with assms show ?thesis by (simp add: required_def)
qed

lemma first_sample_valid: "validate_Project plain_coercion (hd project_samples) \<noteq> None"
  by code_simp

text \<open>
  C2, as the spec states it, fails: the spec's enum holds \<open>TimeSeries\<close>, the schema's
  \<open>Literal\<close> holds \<open>Time Series\<close>. The first sample with domain \<open>TimeSeries\<close> is rejected,
  and the second sample, whose domain \<open>Time Series\<close> is outside the spec's enum, is
  accepted.
\<close>

theorem project_domain_enum_counterexample:
  "''TimeSeries'' \<in> set spec_domains
   \<and> validate_Project plain_coercion ((''domain'', JStr ''TimeSeries'') # hd project_samples) = None
   \<and> ''Time Series'' \<notin> set spec_domains
   \<and> map_of (project_samples ! 1) ''domain'' = Some (JStr ''Time Series'')
   \<and> validate_Project plain_coercion (project_samples ! 1) \<noteq> None"
  by code_simp

text \<open>
  C2, amended: the enum of \<open>domain\<close> is ML, Analytics, Visualization, NLP, CV,
  Time Series, MLOps, Other. A payload that validates has its \<open>domain\<close> in this enum;
  setting the \<open>domain\<close> of a payload that validates to any value of the enum gives a payload
  that validates; and a payload whose \<open>domain\<close> is absent or any value outside the enum
  fails validation, whatever its other fields.
\<close>

theorem project_domain_enum:
  "(validate_Project c p = Some r \<longrightarrow>
      domain r \<in> set Project_domains \<and> map_of p ''domain'' = Some (JStr (domain r)))
   \<and> (validate_Project c p = Some r \<longrightarrow> s \<in> set Project_domains \<longrightarrow>
        validate_Project c ((''domain'', JStr s) # p) = Some (r\<lparr>domain := s\<rparr>))
   \<and> (map_of p ''domain'' \<notin> Some ` JStr ` set Project_domains \<longrightarrow> validate_Project c p = None)"
proof (intro conjI impI)
  assume "validate_Project c p = Some r"
  then have "required (literal Project_domains) p ''domain'' = Some (domain r)"
    by (simp add: validate_Project_Some)
  then show "domain r \<in> set Project_domains" and "map_of p ''domain'' = Some (JStr (domain r))"
    by (simp_all add: required_literal)
next
  assume "validate_Project c p = Some r" and "s \<in> set Project_domains"
  then show "validate_Project c ((''domain'', JStr s) # p) = Some (r\<lparr>domain := s\<rparr>)"
    by (rule validate_Project_change_domain)
next
  assume "map_of p ''domain'' \<notin> Some ` JStr ` set Project_domains"
  then show "validate_Project c p = None"
    by (rule validate_Project_needs_domain)
qed

theorem project_domain_enum_witness:
  "validate_Project plain_coercion (hd project_samples) \<noteq> None
   \<and> ''Time Series'' \<in> set Project_domains
   \<and> validate_Project plain_coercion ((''domain'', JStr ''Time Series'') # hd project_samples) \<noteq> None
   \<and> map_of ((''domain'', JStr ''Statistics'') # hd project_samples) ''domain''
        \<notin> Some ` JStr ` set Project_domains
   \<and> validate_Project plain_coercion ((''domain'', JStr ''Statistics'') # hd project_samples) = None"
proof -
  obtain r where r: "validate_Project plain_coercion (hd project_samples) = Some r"
    using first_sample_valid by auto
  have member: "''Time Series'' \<in> set Project_domains"
    by (simp add: Project_domains_def)
  have outside: "map_of ((''domain'', JStr ''Statistics'') # hd project_samples) ''domain''
      \<notin> Some ` JStr ` set Project_domains"
    by (auto simp: Project_domains_def)
  have "validate_Project plain_coercion ((''domain'', JStr ''Time Series'') # hd project_samples)
      = Some (r\<lparr>domain := ''Time Series''\<rparr>)"
    using r member
      project_domain_enum [of plain_coercion "hd project_samples" r "''Time Series''"]
    by blast
  then have accepted:
    "validate_Project plain_coercion ((''domain'', JStr ''Time Series'') # hd project_samples)
      \<noteq> None"
    by simp
  have rejected:
    "validate_Project plain_coercion ((''domain'', JStr ''Statistics'') # hd project_samples)
      = None"
    using outside
      project_domain_enum
        [of plain_coercion "(''domain'', JStr ''Statistics'') # hd project_samples" r "''ML''"]
    by blast
  show ?thesis
    by (intro conjI first_sample_valid member accepted outside rejected)
qed
text \<open>
  C8, as the spec states it, fails for \<open>Publication.authors\<close>: the field has no default,
  so the first sample publication validates and, with \<open>authors\<close> dropped, does not.
\<close>

theorem publication_authors_counterexample:
  "validate_Publication plain_coercion (hd pubs) \<noteq> None
   \<and> validate_Publication plain_coercion (omit ''authors'' (hd pubs)) = None"
  by code_simp

text \<open>
  C8, amended: \<open>Project.stack\<close>, \<open>Project.tags\<close> and \<open>BlogPost.topics\<close> default to the empty
  list: a payload that validates still validates when the field is dropped, with the
  field equal to the empty list and every other field as before, and a payload that
  validates without the field has it empty. \<open>Publication.authors\<close> has no default: every
  payload without it fails validation.
\<close>

theorem list_fields_default:
  "(validate_Project c p = Some r \<longrightarrow>
      validate_Project c (omit ''stack'' p) = Some (r\<lparr>stack := []\<rparr>)
    \<and> validate_Project c (omit ''tags'' p) = Some (r\<lparr>tags := []\<rparr>)
    \<and> (map_of p ''stack'' = None \<longrightarrow> stack r = [])
    \<and> (map_of p ''tags'' = None \<longrightarrow> tags r = []))
   \<and> (validate_BlogPost c pb = Some b \<longrightarrow>
        validate_BlogPost c (omit ''topics'' pb) = Some (b\<lparr>topics := []\<rparr>)
      \<and> (map_of pb ''topics'' = None \<longrightarrow> topics b = []))
   \<and> (map_of pu ''authors'' = None \<longrightarrow> validate_Publication c pu = None)
   \<and> validate_Publication c (omit ''authors'' pu) = None"
  using validate_Project_omit_stack [of c p r] validate_Project_omit_tags [of c p r]
    validate_BlogPost_omit_topics [of c pb b] validate_Publication_needs_authors [of pu c]
    validate_Publication_needs_authors [of "omit ''authors'' pu" c]
  by (auto simp: validate_Project_Some validate_BlogPost_Some with_default_def map_of_omit)

theorem list_fields_default_witness:
  "validate_Project plain_coercion (hd project_samples) \<noteq> None
   \<and> (case validate_Project plain_coercion (omit ''stack'' (hd project_samples)) of
         None \<Rightarrow> False | Some r \<Rightarrow> stack r = [])
   \<and> (case validate_Project plain_coercion (omit ''tags'' (hd project_samples)) of
         None \<Rightarrow> False | Some r \<Rightarrow> tags r = [])
   \<and> validate_BlogPost plain_coercion (hd posts) \<noteq> None
   \<and> (case validate_BlogPost plain_coercion (omit ''topics'' (hd posts)) of
         None \<Rightarrow> False | Some r \<Rightarrow> topics r = [])
   \<and> map_of (omit ''authors'' (hd pubs)) ''authors'' = None
   \<and> validate_Publication plain_coercion (omit ''authors'' (hd pubs)) = None"
proof -
  obtain r where r: "validate_Project plain_coercion (hd project_samples) = Some r"
    using first_sample_valid by auto
  have "validate_BlogPost plain_coercion (hd posts) \<noteq> None"
    by code_simp
  then obtain b where b: "validate_BlogPost plain_coercion (hd posts) = Some b"
    by auto
  have absent: "map_of (omit ''authors'' (hd pubs)) ''authors'' = None"
    by (simp add: map_of_omit)
  show ?thesis
    using r b absent
      list_fields_default [of plain_coercion "hd project_samples" r "hd posts" b
        "omit ''authors'' (hd pubs)"]
    by simp
qed

section \<open>The handlers without a working store\<close>

text \<open>
  C6, as the spec states it, fails: the spec counts a store that is configured but
  unreachable as unavailable, and for a store whose operations fail the three list
  endpoints raise the store's exception instead of returning the empty list.
\<close>

theorem list_endpoints_unreachable_counterexample:
  "fault faulty_store = Some ''connection refused''
   \<and> list_projects plain_coercion literal_regex (Some faulty_store) None None None
        = Inl (StoreError ''connection refused'')
   \<and> list_projects plain_coercion literal_regex (Some faulty_store) None None None \<noteq> Inr []
   \<and> list_publications plain_coercion literal_regex (Some faulty_store)
        = Inl (StoreError ''connection refused'')
   \<and> list_blog plain_coercion literal_regex (Some faulty_store)
        = Inl (StoreError ''connection refused'')"
  by (simp add: list_projects_def list_publications_def list_blog_def get_documents_def
        faulty_store_def)

text \<open>
  C6, amended: with the handle unset (the store not configured), each of the three list
  endpoints returns the empty list and no error, whatever the parameters. With the handle
  set and a store whose operations fail, no list endpoint returns the empty list: the
  exception of the store leaves the handler as an error.
\<close>

theorem list_endpoints_unset_or_failing:
  "list_projects c rx None d y q = Inr []
   \<and> list_publications c rx None = Inr []
   \<and> list_blog c rx None = Inr []
   \<and> (fault st = Some msg \<longrightarrow>
        list_projects c rx (Some st) d y q = Inl (StoreError msg)
      \<and> list_publications c rx (Some st) = Inl (StoreError msg)
      \<and> list_blog c rx (Some st) = Inl (StoreError msg))"
  by (simp add: list_projects_def list_publications_def list_blog_def get_documents_def)

theorem list_endpoints_unset_or_failing_witness:
  "fault faulty_store = Some ''connection refused''
   \<and> list_projects plain_coercion literal_regex None (Some ''ML'') (Some 2023) (Some ''churn'')
        = Inr []
   \<and> list_projects plain_coercion literal_regex (Some faulty_store) (Some ''ML'') (Some 2023)
          (Some ''churn'')
        = Inl (StoreError ''connection refused'')
   \<and> list_publications plain_coercion literal_regex (Some faulty_store)
        = Inl (StoreError ''connection refused'')
   \<and> list_blog plain_coercion literal_regex (Some faulty_store)
        = Inl (StoreError ''connection refused'')"
proof -
  have f: "fault faulty_store = Some ''connection refused''"
    by (simp add: faulty_store_def)
  show ?thesis
    using f
      list_endpoints_unset_or_failing [of plain_coercion literal_regex "Some ''ML''"
        "Some 2023" "Some ''churn''" faulty_store "''connection refused''"]
    by blast
qed

text \<open>
  C5: with the handle unset, \<open>submit_contact\<close> raises the HTTP error 500 for every
  contact message and the handle is as before: nothing is inserted. The route as a whole,
  which validates the payload first, never answers with a success.
\<close>

theorem contact_without_store_fails:
  "submit_contact None msg = (Inl (HTTPException 500 ''Database not configured''), None)
   \<and> (\<exists>e. post_contact c None payload = (Inl e, None))"
  by (simp add: submit_contact_def post_contact_def not_configured_def split: option.split)

section \<open>GET /test\<close>

lemma probe_collections_no_exception: "fst (probe_collections st r) = None"
  by (simp add: probe_collections_def split: sum.split)

lemma probe_no_exception: "fst (probe env db r) = None"
  by (simp add: probe_def probe_collections_no_exception split: option.split)

lemma test_database_unset:
  "test_database env None =
     Inr \<lparr>backend = check_mark @ '' Running'',
          database = warning_sign @ '' Available but not initialized'',
          database_url = None, database_name = None,
          connection_status = ''Not Connected'', collections = []\<rparr>"
  by (simp add: test_database_def probe_def)

lemma test_database_fault:
  assumes "fault st = Some msg"
  shows "\<exists>r. test_database env (Some st) = Inr r
           \<and> database r = warning_sign @ '' Connected but error: '' @ take 80 msg
           \<and> connection_status r = ''Connected'' \<and> collections r = []"
  using assms
  by (simp add: test_database_def probe_def probe_collections_def list_collection_names_def)

lemma test_database_reachable:
  assumes "fault st = None"
  shows "\<exists>r. test_database env (Some st) = Inr r
           \<and> database r = check_mark @ '' Connected & Working''
           \<and> connection_status r = ''Connected''
           \<and> collections r = take 10 (map fst (colls st))"
  using assms
  by (simp add: test_database_def probe_def probe_collections_def list_collection_names_def)

lemma test_database_total: "\<exists>r. test_database env db = Inr r"
proof -
  obtain e r where p: "probe env db
      \<lparr>backend = check_mark @ '' Running'', database = cross_mark @ '' Not Available'',
       database_url = None, database_name = None, connection_status = ''Not Connected'',
       collections = []\<rparr> = (e, r)"
    by (cases "probe env db
      \<lparr>backend = check_mark @ '' Running'', database = cross_mark @ '' Not Available'',
       database_url = None, database_name = None, connection_status = ''Not Connected'',
       collections = []\<rparr>")
  then show ?thesis
    by (cases e) (simp_all add: test_database_def)
qed

lemma test_database_at_most_ten:
  assumes "test_database env db = Inr r"
  shows "length (collections r) \<le> 10"
proof (cases db)
  case None
  with assms show ?thesis by (auto simp: test_database_unset)
next
  case (Some st)
  show ?thesis
  proof (cases "fault st")
    case None
    from test_database_reachable [OF None, of env] Some assms show ?thesis by auto
  next
    case (Some msg)
    from test_database_fault [OF Some, of env] \<open>db = Some st\<close> assms show ?thesis by auto
  qed
qed

text \<open>
  C9: \<open>test_database\<close> returns a response for every environment and every state of the
  store, never an exception. With the handle unset the response reads
  \<open>Available but not initialized\<close> and \<open>Not Connected\<close>, without URL, name or collections.
  An exception of the store while the collections are listed is caught and its text, cut
  to 80 characters, is put into the \<open>database\<close> entry. When the store answers, the
  response lists the first ten collection names; no response lists more than ten.
\<close>

theorem test_database_never_raises:
  "(\<exists>r. test_database env db = Inr r)
   \<and> (db = None \<longrightarrow>
        test_database env db =
          Inr \<lparr>backend = check_mark @ '' Running'',
               database = warning_sign @ '' Available but not initialized'',
               database_url = None, database_name = None,
               connection_status = ''Not Connected'', collections = []\<rparr>)
   \<and> (\<forall>st msg. db = Some st \<longrightarrow> fault st = Some msg \<longrightarrow>
        (\<exists>r. test_database env db = Inr r
           \<and> database r = warning_sign @ '' Connected but error: '' @ take 80 msg
           \<and> collections r = []))
   \<and> (\<forall>st. db = Some st \<longrightarrow> fault st = None \<longrightarrow>
        (\<exists>r. test_database env db = Inr r
           \<and> connection_status r = ''Connected''
           \<and> collections r = take 10 (map fst (colls st))))
   \<and> (\<forall>r. test_database env db = Inr r \<longrightarrow> length (collections r) \<le> 10)"
proof (intro conjI allI impI)
  show "\<exists>r. test_database env db = Inr r"
    by (rule test_database_total)
next
  assume "db = None"
  then show "test_database env db =
      Inr \<lparr>backend = check_mark @ '' Running'',
           database = warning_sign @ '' Available but not initialized'',
           database_url = None, database_name = None,
           connection_status = ''Not Connected'', collections = []\<rparr>"
    by (simp add: test_database_unset)
next
  fix st msg
  assume "db = Some st" and "fault st = Some msg"
  with test_database_fault [of st msg env]
  show "\<exists>r. test_database env db = Inr r
      \<and> database r = warning_sign @ '' Connected but error: '' @ take 80 msg
      \<and> collections r = []"
    by auto
next
  fix st
  assume "db = Some st" and "fault st = None"
  with test_database_reachable [of st env]
  show "\<exists>r. test_database env db = Inr r
      \<and> connection_status r = ''Connected''
      \<and> collections r = take 10 (map fst (colls st))"
    by auto
next
  fix r
  assume "test_database env db = Inr r"
  then show "length (collections r) \<le> 10"
    by (rule test_database_at_most_ten)
qed
theorem test_database_never_raises_witness:
  "(None :: database) = None
   \<and> test_database no_environ None =
        Inr \<lparr>backend = check_mark @ '' Running'',
             database = warning_sign @ '' Available but not initialized'',
             database_url = None, database_name = None,
             connection_status = ''Not Connected'', collections = []\<rparr>
   \<and> fault faulty_store = Some ''connection refused''
   \<and> (\<exists>r. test_database no_environ (Some faulty_store) = Inr r
          \<and> database r = warning_sign @ '' Connected but error: connection refused''
          \<and> collections r = [])
   \<and> fault crowded_store = None
   \<and> (\<exists>r. test_database no_environ (Some crowded_store) = Inr r
          \<and> connection_status r = ''Connected''
          \<and> collections r =
              [''c01'', ''c02'', ''c03'', ''c04'', ''c05'', ''c06'', ''c07'', ''c08'', ''c09'',
               ''c10'']
          \<and> length (collections r) \<le> 10)"
proof -
  have unset: "test_database no_environ None =
      Inr \<lparr>backend = check_mark @ '' Running'',
           database = warning_sign @ '' Available but not initialized'',
           database_url = None, database_name = None,
           connection_status = ''Not Connected'', collections = []\<rparr>"
    using test_database_never_raises [of no_environ None] by blast
  have f: "fault faulty_store = Some ''connection refused''"
    by (simp add: faulty_store_def)
  have "\<exists>r. test_database no_environ (Some faulty_store) = Inr r
      \<and> database r = warning_sign @ '' Connected but error: '' @ take 80 ''connection refused''
      \<and> collections r = []"
    using f test_database_never_raises [of no_environ "Some faulty_store"] by blast
  then have faulty: "\<exists>r. test_database no_environ (Some faulty_store) = Inr r
      \<and> database r = warning_sign @ '' Connected but error: connection refused''
      \<and> collections r = []"
    by simp
  have c: "fault crowded_store = None"
    by (simp add: crowded_store_def empty_store_def)
  have names: "take 10 (map fst (colls crowded_store)) =
      [''c01'', ''c02'', ''c03'', ''c04'', ''c05'', ''c06'', ''c07'', ''c08'', ''c09'', ''c10'']"
    by (simp add: crowded_store_def)
  have "\<exists>r. test_database no_environ (Some crowded_store) = Inr r
      \<and> connection_status r = ''Connected''
      \<and> collections r = take 10 (map fst (colls crowded_store))
      \<and> length (collections r) \<le> 10"
    using c test_database_never_raises [of no_environ "Some crowded_store"] by blast
  then have crowded: "\<exists>r. test_database no_environ (Some crowded_store) = Inr r
      \<and> connection_status r = ''Connected''
      \<and> collections r =
          [''c01'', ''c02'', ''c03'', ''c04'', ''c05'', ''c06'', ''c07'', ''c08'', ''c09'', ''c10'']
      \<and> length (collections r) \<le> 10"
    by (simp only: names)
  show ?thesis
    by (intro conjI refl unset f faulty c crowded)
qed

section \<open>POST /contact with a store\<close>

lemma docs_of_update:
  "docs_of (st\<lparr>colls := AList.update coll ds (colls st), next_id := n\<rparr>) coll' =
     (if coll' = coll then ds else docs_of st coll')"
  by (simp add: docs_of_def update_conv')

lemma insert_one_ok:
  assumes "fault st = None"
  shows "insert_one st coll doc =
     Inr (next_id st,
          st\<lparr>colls := AList.update coll (docs_of st coll @ [(''_id'', JId (next_id st)) # doc])
                           (colls st),
             next_id := Suc (next_id st)\<rparr>)"
  using assms by (simp add: insert_one_def)

lemma create_document_ok:
  assumes "fault st = None"
  shows "\<exists>st'. create_document (Some st) coll doc = (Inr (next_id st), Some st')
           \<and> fault st' = None
           \<and> docs_of st' coll = docs_of st coll @ [(''_id'', JId (next_id st)) # doc]
           \<and> (\<forall>coll'. coll' \<noteq> coll \<longrightarrow> docs_of st' coll' = docs_of st coll')"
  using assms by (simp add: create_document_def insert_one_ok docs_of_update)

text \<open>
  C4: for a payload that validates as a \<open>ContactMessage\<close>, with the handle set and the
  store answering, the route returns \<open>{status: received}\<close>; afterwards the collection
  \<open>contactmessage\<close> holds its former documents followed by exactly one new document, the
  message under a fresh identifier, and every other collection is as before.
\<close>

theorem contact_is_stored:
  assumes "validate_ContactMessage c payload = Some msg" and "fault st = None"
  shows "\<exists>st'. post_contact c (Some st) payload = (Inr [(''status'', JStr ''received'')], Some st')
           \<and> docs_of st' ''contactmessage'' =
               docs_of st ''contactmessage'' @ [(''_id'', JId (next_id st)) # dump_ContactMessage msg]
           \<and> length (docs_of st' ''contactmessage'') = Suc (length (docs_of st ''contactmessage''))
           \<and> (\<forall>coll. coll \<noteq> ''contactmessage'' \<longrightarrow> docs_of st' coll = docs_of st coll)"
proof -
  obtain st' where st': "create_document (Some st) ''contactmessage'' (dump_ContactMessage msg)
        = (Inr (next_id st), Some st')"
      "docs_of st' ''contactmessage'' =
         docs_of st ''contactmessage'' @ [(''_id'', JId (next_id st)) # dump_ContactMessage msg]"
      "\<forall>coll'. coll' \<noteq> ''contactmessage'' \<longrightarrow> docs_of st' coll' = docs_of st coll'"
    using create_document_ok [OF assms(2), of "''contactmessage''" "dump_ContactMessage msg"]
    by blast
  have "post_contact c (Some st) payload = (Inr [(''status'', JStr ''received'')], Some st')"
    using assms(1) st'(1) by (simp add: post_contact_def submit_contact_def)
  with st'(2,3) show ?thesis by simp
qed

theorem contact_is_stored_witness:
  "validate_ContactMessage plain_coercion contact_payload
     = Some \<lparr>name = ''Ada'', email = ''ada@example.org'', message = ''Hello'', source = None\<rparr>
   \<and> fault empty_store = None
   \<and> (\<exists>st'. post_contact plain_coercion (Some empty_store) contact_payload
               = (Inr [(''status'', JStr ''received'')], Some st')
          \<and> length (docs_of st' ''contactmessage'') = 1)"
proof -
  have v: "validate_ContactMessage plain_coercion contact_payload
     = Some \<lparr>name = ''Ada'', email = ''ada@example.org'', message = ''Hello'', source = None\<rparr>"
    by (simp add: validate_ContactMessage_def contact_payload_def plain_coercion_def
          required_def with_default_def)
  have f: "fault empty_store = None"
    by (simp add: empty_store_def)
  have e: "docs_of empty_store ''contactmessage'' = []"
    by (simp add: docs_of_def empty_store_def)
  have "\<exists>st'. post_contact plain_coercion (Some empty_store) contact_payload
               = (Inr [(''status'', JStr ''received'')], Some st')
          \<and> length (docs_of st' ''contactmessage'')
              = Suc (length (docs_of empty_store ''contactmessage''))"
    using contact_is_stored [OF v f] by blast
  then have "\<exists>st'. post_contact plain_coercion (Some empty_store) contact_payload
               = (Inr [(''status'', JStr ''received'')], Some st')
          \<and> length (docs_of st' ''contactmessage'') = 1"
    by (simp add: e)
  with v f show ?thesis by blast
qed

section \<open>GET /projects without parameters\<close>

lemma those_map_Some:
  "those (map f xs) = Some ys \<longleftrightarrow> map f xs = map Some ys"
proof (induction xs arbitrary: ys)
  case Nil
  then show ?case by auto
next
  case (Cons x xs)
  then show ?case by (cases "f x"; cases ys) auto
qed

lemma those_map_all:
  assumes "\<forall>x \<in> set xs. f x \<noteq> None"
  shows "\<exists>ys. those (map f xs) = Some ys"
  using assms by (induction xs) auto

lemma coerce_all_Inr:
  "coerce_all schema validate docs = Inr xs \<longleftrightarrow>
     map (\<lambda>d. validate (strip_id d)) docs = map Some xs"
proof (cases "those (map (\<lambda>d. validate (strip_id d)) docs)")
  case None
  then have "map (\<lambda>d. validate (strip_id d)) docs \<noteq> map Some xs"
    using those_map_Some [of "\<lambda>d. validate (strip_id d)" docs xs] by simp
  with None show ?thesis by (simp add: coerce_all_def)
next
  case (Some ys)
  then have "map (\<lambda>d. validate (strip_id d)) docs = map Some ys"
    by (simp add: those_map_Some)
  with Some show ?thesis by (auto simp: coerce_all_def)
qed

lemma strip_id_no_id: "map_of (strip_id d) ''_id'' = None"
  by (induction d) (auto simp: strip_id_def)

lemma strip_id_other: "k \<noteq> ''_id'' \<Longrightarrow> map_of (strip_id d) k = map_of d k"
  by (induction d) (auto simp: strip_id_def)

lemma get_documents_all:
  assumes "fault st = None"
  shows "get_documents rx (Some st) coll [] = Inr (docs_of st coll)"
  using assms by (simp add: get_documents_def matches_Nil)

lemma list_projects_no_parameters:
  assumes "fault st = None"
  shows "list_projects c rx (Some st) None None None
      = coerce_all ''Project'' (validate_Project c) (docs_of st ''project'')"
  using assms by (simp add: list_projects_def projects_query_def get_documents_all)

lemma coerce_all_pointwise:
  assumes "coerce_all schema validate docs = Inr xs"
  shows "length xs = length docs"
    and "\<forall>i < length xs. validate (strip_id (docs ! i)) = Some (xs ! i)"
proof -
  from assms have m: "map (\<lambda>d. validate (strip_id d)) docs = map Some xs"
    by (simp add: coerce_all_Inr)
  then show len: "length xs = length docs"
    by (metis length_map)
  show "\<forall>i < length xs. validate (strip_id (docs ! i)) = Some (xs ! i)"
  proof (intro allI impI)
    fix i
    assume i: "i < length xs"
    have "map (\<lambda>d. validate (strip_id d)) docs ! i = map Some xs ! i"
      by (simp only: m)
    with i len show "validate (strip_id (docs ! i)) = Some (xs ! i)"
      by simp
  qed
qed

lemma coerce_all_total:
  assumes "\<forall>d \<in> set docs. validate (strip_id d) \<noteq> None"
  shows "\<exists>xs. coerce_all schema validate docs = Inr xs"
proof -
  obtain ys where "those (map (\<lambda>d. validate (strip_id d)) docs) = Some ys"
    using assms those_map_all [of docs "\<lambda>d. validate (strip_id d)"] by blast
  then show ?thesis by (simp add: coerce_all_def)
qed

lemma those_map_None:
  assumes "\<exists>x \<in> set xs. f x = None"
  shows "those (map f xs) = None"
  using assms by (induction xs) (auto split: option.splits)

lemma coerce_all_invalid:
  assumes "\<exists>d \<in> set docs. validate (strip_id d) = None"
  shows "coerce_all schema validate docs = Inl (ValidationError schema)"
proof -
  have "those (map (\<lambda>d. validate (strip_id d)) docs) = None"
    using assms by (intro those_map_None) simp
  then show ?thesis by (simp add: coerce_all_def)
qed

lemma required_strip_id: "k \<noteq> ''_id'' \<Longrightarrow> required f (strip_id d) k = required f d k"
  by (simp add: required_def strip_id_other)

lemma with_default_strip_id:
  "k \<noteq> ''_id'' \<Longrightarrow> with_default x f (strip_id d) k = with_default x f d k"
  by (simp add: with_default_def strip_id_other)

text \<open>
  Every field of the project made from a stored document is the coercion of that field
  of the document (or the default of a field the document lacks).
\<close>

lemma validate_Project_stored_fields:
  assumes "validate_Project c (strip_id d) = Some p"
  shows "required (as_str c) d ''title'' = Some (Project.title p)
       \<and> required (as_str c) d ''slug'' = Some (Project.slug p)
       \<and> required (as_str c) d ''summary'' = Some (summary p)
       \<and> map_of d ''domain'' = Some (JStr (domain p))
       \<and> with_default [] (list_of (as_str c)) d ''stack'' = Some (stack p)
       \<and> required (as_int c) d ''year'' = Some (Project.year p)
       \<and> required (as_str c) d ''problem'' = Some (problem p)
       \<and> required (as_str c) d ''approach'' = Some (approach p)
       \<and> required (as_str c) d ''dataset'' = Some (dataset p)
       \<and> required (as_str c) d ''model'' = Some (model p)
       \<and> required (as_str c) d ''results'' = Some (results p)
       \<and> required (as_str c) d ''impact'' = Some (impact p)
       \<and> with_default None (optional (as_url c)) d ''github_url'' = Some (github_url p)
       \<and> with_default None (optional (as_url c)) d ''demo_url'' = Some (demo_url p)
       \<and> with_default [] (list_of (as_str c)) d ''tags'' = Some (tags p)
       \<and> with_default None (optional (as_dict c)) d ''plotly_fig'' = Some (plotly_fig p)"
  using assms
  by (simp add: validate_Project_Some required_literal required_strip_id with_default_strip_id
        strip_id_other)

text \<open>
  C7, as the spec states it, fails: the projects are returned only when every stored
  document validates. With the first sample project and one document that is no project
  in the collection, the endpoint raises the validation error and returns no project.
\<close>

theorem list_projects_invalid_document_counterexample:
  "fault broken_store = None
   \<and> docs_of broken_store ''project'' = [churn_document, draft_document]
   \<and> validate_Project plain_coercion (strip_id churn_document) \<noteq> None
   \<and> list_projects plain_coercion literal_regex (Some broken_store) None None None
        = Inl (ValidationError ''Project'')"
proof -
  have f: "fault broken_store = None"
    by (simp add: broken_store_def empty_store_def)
  have docs: "docs_of broken_store ''project'' = [churn_document, draft_document]"
    by (simp add: docs_of_def broken_store_def)
  have valid: "validate_Project plain_coercion (strip_id churn_document) \<noteq> None"
    by code_simp
  have "validate_Project plain_coercion (strip_id draft_document) = None"
    by code_simp
  then have "\<exists>d \<in> set (docs_of broken_store ''project'').
      validate_Project plain_coercion (strip_id d) = None"
    by (simp add: docs)
  then have "coerce_all ''Project'' (validate_Project plain_coercion)
      (docs_of broken_store ''project'') = Inl (ValidationError ''Project'')"
    by (rule coerce_all_invalid)
  then have "list_projects plain_coercion literal_regex (Some broken_store) None None None
      = Inl (ValidationError ''Project'')"
    by (simp only: list_projects_no_parameters [OF f])
  with f docs valid show ?thesis by blast
qed

text \<open>
  C7, amended: with the handle set and the store answering, \<open>list_projects\<close> without
  parameters asks for the whole collection \<open>project\<close>. When every stored document
  validates as a \<open>Project\<close> it returns one project per stored document, in store order,
  and each returned project is its stored document without \<open>_id\<close>, coerced: every field
  of the project is the coercion of the same field of the document, or the default of a
  field the document lacks. When a stored document does not validate, the endpoint raises
  the validation error and returns no project.
\<close>

theorem list_projects_returns_all:
  assumes "fault st = None"
  shows "list_projects c rx (Some st) None None None
           = coerce_all ''Project'' (validate_Project c) (docs_of st ''project'')
       \<and> ((\<forall>d \<in> set (docs_of st ''project''). validate_Project c (strip_id d) \<noteq> None) \<longrightarrow>
             (\<exists>qs. list_projects c rx (Some st) None None None = Inr qs
                  \<and> length qs = length (docs_of st ''project'')))
       \<and> (list_projects c rx (Some st) None None None = Inr ps \<longrightarrow>
             length ps = length (docs_of st ''project'')
           \<and> (\<forall>i < length ps.
                 validate_Project c (strip_id (docs_of st ''project'' ! i)) = Some (ps ! i)
               \<and> map_of (strip_id (docs_of st ''project'' ! i)) ''_id'' = None
               \<and> required (as_str c) (docs_of st ''project'' ! i) ''title''
                   = Some (Project.title (ps ! i))
               \<and> required (as_str c) (docs_of st ''project'' ! i) ''slug''
                   = Some (Project.slug (ps ! i))
               \<and> required (as_str c) (docs_of st ''project'' ! i) ''summary''
                   = Some (summary (ps ! i))
               \<and> map_of (docs_of st ''project'' ! i) ''domain'' = Some (JStr (domain (ps ! i)))
               \<and> with_default [] (list_of (as_str c)) (docs_of st ''project'' ! i) ''stack''
                   = Some (stack (ps ! i))
               \<and> required (as_int c) (docs_of st ''project'' ! i) ''year''
                   = Some (Project.year (ps ! i))
               \<and> required (as_str c) (docs_of st ''project'' ! i) ''problem''
                   = Some (problem (ps ! i))
               \<and> required (as_str c) (docs_of st ''project'' ! i) ''approach''
                   = Some (approach (ps ! i))
               \<and> required (as_str c) (docs_of st ''project'' ! i) ''dataset''
                   = Some (dataset (ps ! i))
               \<and> required (as_str c) (docs_of st ''project'' ! i) ''model''
                   = Some (model (ps ! i))
               \<and> required (as_str c) (docs_of st ''project'' ! i) ''results''
                   = Some (results (ps ! i))
               \<and> required (as_str c) (docs_of st ''project'' ! i) ''impact''
                   = Some (impact (ps ! i))
               \<and> with_default None (optional (as_url c)) (docs_of st ''project'' ! i)
                     ''github_url'' = Some (github_url (ps ! i))
               \<and> with_default None (optional (as_url c)) (docs_of st ''project'' ! i)
                     ''demo_url'' = Some (demo_url (ps ! i))
               \<and> with_default [] (list_of (as_str c)) (docs_of st ''project'' ! i) ''tags''
                   = Some (tags (ps ! i))
               \<and> with_default None (optional (as_dict c)) (docs_of st ''project'' ! i)
                     ''plotly_fig'' = Some (plotly_fig (ps ! i))))
       \<and> ((\<exists>d \<in> set (docs_of st ''project''). validate_Project c (strip_id d) = None) \<longrightarrow>
             list_projects c rx (Some st) None None None = Inl (ValidationError ''Project''))"
proof (intro conjI impI allI)
  note eq = list_projects_no_parameters [OF assms, of c rx]
  show "list_projects c rx (Some st) None None None
      = coerce_all ''Project'' (validate_Project c) (docs_of st ''project'')"
    by (rule eq)
  {
    assume "\<forall>d \<in> set (docs_of st ''project''). validate_Project c (strip_id d) \<noteq> None"
    then obtain qs where
      qs: "coerce_all ''Project'' (validate_Project c) (docs_of st ''project'') = Inr qs"
      using coerce_all_total by blast
    then have "length qs = length (docs_of st ''project'')"
      by (rule coerce_all_pointwise(1))
    with qs show "\<exists>qs. list_projects c rx (Some st) None None None = Inr qs
        \<and> length qs = length (docs_of st ''project'')"
      by (simp add: eq)
  }
  {
    assume "\<exists>d \<in> set (docs_of st ''project''). validate_Project c (strip_id d) = None"
    then show "list_projects c rx (Some st) None None None = Inl (ValidationError ''Project'')"
      by (simp only: eq) (rule coerce_all_invalid)
  }
  assume "list_projects c rx (Some st) None None None = Inr ps"
  then have co: "coerce_all ''Project'' (validate_Project c) (docs_of st ''project'') = Inr ps"
    by (simp only: eq)
  show "length ps = length (docs_of st ''project'')"
    using co by (rule coerce_all_pointwise(1))
  fix i
  assume "i < length ps"
  with coerce_all_pointwise(2) [OF co]
  have v: "validate_Project c (strip_id (docs_of st ''project'' ! i)) = Some (ps ! i)"
    by blast
  note fields = validate_Project_stored_fields [OF v]
  show "validate_Project c (strip_id (docs_of st ''project'' ! i)) = Some (ps ! i)"
    by (rule v)
  show "map_of (strip_id (docs_of st ''project'' ! i)) ''_id'' = None"
    by (rule strip_id_no_id)
  show "required (as_str c) (docs_of st ''project'' ! i) ''title'' = Some (Project.title (ps ! i))"
    using fields by blast
  show "required (as_str c) (docs_of st ''project'' ! i) ''slug'' = Some (Project.slug (ps ! i))"
    using fields by blast
  show "required (as_str c) (docs_of st ''project'' ! i) ''summary'' = Some (summary (ps ! i))"
    using fields by blast
  show "map_of (docs_of st ''project'' ! i) ''domain'' = Some (JStr (domain (ps ! i)))"
    using fields by blast
  show "with_default [] (list_of (as_str c)) (docs_of st ''project'' ! i) ''stack''
      = Some (stack (ps ! i))"
    using fields by blast
  show "required (as_int c) (docs_of st ''project'' ! i) ''year'' = Some (Project.year (ps ! i))"
    using fields by blast
  show "required (as_str c) (docs_of st ''project'' ! i) ''problem'' = Some (problem (ps ! i))"
    using fields by blast
  show "required (as_str c) (docs_of st ''project'' ! i) ''approach'' = Some (approach (ps ! i))"
    using fields by blast
  show "required (as_str c) (docs_of st ''project'' ! i) ''dataset'' = Some (dataset (ps ! i))"
    using fields by blast
  show "required (as_str c) (docs_of st ''project'' ! i) ''model'' = Some (model (ps ! i))"
    using fields by blast
  show "required (as_str c) (docs_of st ''project'' ! i) ''results'' = Some (results (ps ! i))"
    using fields by blast
  show "required (as_str c) (docs_of st ''project'' ! i) ''impact'' = Some (impact (ps ! i))"
    using fields by blast
  show "with_default None (optional (as_url c)) (docs_of st ''project'' ! i) ''github_url''
      = Some (github_url (ps ! i))"
    using fields by blast
  show "with_default None (optional (as_url c)) (docs_of st ''project'' ! i) ''demo_url''
      = Some (demo_url (ps ! i))"
    using fields by blast
  show "with_default [] (list_of (as_str c)) (docs_of st ''project'' ! i) ''tags''
      = Some (tags (ps ! i))"
    using fields by blast
  show "with_default None (optional (as_dict c)) (docs_of st ''project'' ! i) ''plotly_fig''
      = Some (plotly_fig (ps ! i))"
    using fields by blast
qed

theorem list_projects_returns_all_witness:
  "fault one_project_store = None
   \<and> docs_of one_project_store ''project'' = [churn_document]
   \<and> validate_Project plain_coercion (strip_id churn_document) \<noteq> None
   \<and> (\<exists>ps. list_projects plain_coercion literal_regex (Some one_project_store) None None None
              = Inr ps
          \<and> length ps = 1
          \<and> Project.title (ps ! 0) = ''Customer Churn Prediction''
          \<and> Project.year (ps ! 0) = 2023
          \<and> domain (ps ! 0) = ''ML''
          \<and> tags (ps ! 0) = [''classification'', ''retention'', ''explainability''])
   \<and> fault broken_store = None
   \<and> validate_Project plain_coercion (strip_id draft_document) = None
   \<and> list_projects plain_coercion literal_regex (Some broken_store) None None None
        = Inl (ValidationError ''Project'')"
proof -
  have f: "fault one_project_store = None"
    by (simp add: one_project_store_def empty_store_def)
  have docs: "docs_of one_project_store ''project'' = [churn_document]"
    by (simp add: docs_of_def one_project_store_def)
  have one: "validate_Project plain_coercion (strip_id churn_document) \<noteq> None"
    by code_simp
  then have valid: "\<forall>d \<in> set (docs_of one_project_store ''project'').
      validate_Project plain_coercion (strip_id d) \<noteq> None"
    by (simp add: docs)
  note all = list_projects_returns_all [OF f, of plain_coercion literal_regex]
  obtain ps where ps:
    "list_projects plain_coercion literal_regex (Some one_project_store) None None None = Inr ps"
    using valid all by blast
  note pinned = all [of ps, THEN conjunct2, THEN conjunct2, THEN conjunct1, rule_format, OF ps]
  have len: "length ps = 1"
    using pinned docs by simp
  then have zero: "0 < length ps"
    by simp
  note at0 = pinned [THEN conjunct2, rule_format, OF zero]
  have t: "required (as_str plain_coercion) churn_document ''title''
      = Some ''Customer Churn Prediction''"
    by (simp add: required_def churn_document_def project_samples_def plain_coercion_def)
  have y: "required (as_int plain_coercion) churn_document ''year'' = Some 2023"
    by (simp add: required_def churn_document_def project_samples_def plain_coercion_def)
  have d: "map_of churn_document ''domain'' = Some (JStr ''ML'')"
    by (simp add: churn_document_def project_samples_def)
  have g: "with_default [] (list_of (as_str plain_coercion)) churn_document ''tags''
      = Some [''classification'', ''retention'', ''explainability'']"
    by (simp add: with_default_def list_of_def churn_document_def project_samples_def
          plain_coercion_def)
  have title: "Project.title (ps ! 0) = ''Customer Churn Prediction''"
    using at0 t by (simp add: docs)
  have year: "Project.year (ps ! 0) = 2023"
    using at0 y by (simp add: docs)
  have dom: "domain (ps ! 0) = ''ML''"
    using at0 d by (simp add: docs)
  have tags: "tags (ps ! 0) = [''classification'', ''retention'', ''explainability'']"
    using at0 g by (simp add: docs)
  have part1: "\<exists>ps. list_projects plain_coercion literal_regex (Some one_project_store)
          None None None = Inr ps
        \<and> length ps = 1
        \<and> Project.title (ps ! 0) = ''Customer Churn Prediction''
        \<and> Project.year (ps ! 0) = 2023
        \<and> domain (ps ! 0) = ''ML''
        \<and> tags (ps ! 0) = [''classification'', ''retention'', ''explainability'']"
    using ps len title year dom tags by blast
  have fb: "fault broken_store = None"
    by (simp add: broken_store_def empty_store_def)
  have docsb: "docs_of broken_store ''project'' = [churn_document, draft_document]"
    by (simp add: docs_of_def broken_store_def)
  have draft: "validate_Project plain_coercion (strip_id draft_document) = None"
    by code_simp
  then have "\<exists>d \<in> set (docs_of broken_store ''project'').
      validate_Project plain_coercion (strip_id d) = None"
    by (simp add: docsb)
  then have raised: "list_projects plain_coercion literal_regex (Some broken_store)
      None None None = Inl (ValidationError ''Project'')"
    using list_projects_returns_all [OF fb, of plain_coercion literal_regex] by blast
  show ?thesis
    by (intro conjI f docs one part1 fb draft raised)
qed

section \<open>POST /seed\<close>

lemma count_documents_ok:
  assumes "fault st = None"
  shows "count_documents rx (Some st) coll [] = Inr (length (docs_of st coll))"
proof -
  have "filter (matches rx []) (docs_of st coll) = docs_of st coll"
    by (simp add: matches_Nil)
  with assms show ?thesis by (simp add: count_documents_def)
qed

lemma count_documents_fault:
  assumes "fault st = Some msg"
  shows "count_documents rx (Some st) coll query = Inl (StoreError msg)"
  using assms by (simp add: count_documents_def)

lemma create_documents_ok:
  assumes "fault st = None"
  shows "\<exists>st'. create_documents (Some st) coll ds = (None, Some st')
           \<and> fault st' = None
           \<and> length (docs_of st' coll) = length (docs_of st coll) + length ds
           \<and> (\<forall>coll'. coll' \<noteq> coll \<longrightarrow> docs_of st' coll' = docs_of st coll')"
  using assms
proof (induction ds arbitrary: st)
  case Nil
  then show ?case by simp
next
  case (Cons d ds)
  obtain st1 where st1:
      "create_document (Some st) coll d = (Inr (next_id st), Some st1)"
      "fault st1 = None"
      "docs_of st1 coll = docs_of st coll @ [(''_id'', JId (next_id st)) # d]"
      "\<forall>coll'. coll' \<noteq> coll \<longrightarrow> docs_of st1 coll' = docs_of st coll'"
    using create_document_ok [OF Cons.prems, of coll d] by blast
  obtain st2 where st2:
      "create_documents (Some st1) coll ds = (None, Some st2)"
      "fault st2 = None"
      "length (docs_of st2 coll) = length (docs_of st1 coll) + length ds"
      "\<forall>coll'. coll' \<noteq> coll \<longrightarrow> docs_of st2 coll' = docs_of st1 coll'"
    using Cons.IH [OF st1(2)] by blast
  have "create_documents (Some st) coll (d # ds) = (None, Some st2)"
    using st1(1) st2(1) by simp
  moreover have "length (docs_of st2 coll) = length (docs_of st coll) + length (d # ds)"
    using st1(3) st2(3) by simp
  moreover have "\<forall>coll'. coll' \<noteq> coll \<longrightarrow> docs_of st2 coll' = docs_of st coll'"
    using st1(4) st2(4) by simp
  ultimately show ?case using st2(2) by blast
qed

lemma seed_collection_fault:
  assumes "fault st = Some msg"
  shows "seed_collection rx (Some st) coll x = (Some (StoreError msg), Some st)"
  using assms by (simp add: seed_collection_def count_documents_fault)

text \<open>The emptiness check gates the inserts: a collection with documents is left alone.\<close>

lemma seed_collection_nonempty:
  assumes "fault st = None" and "docs_of st coll \<noteq> []"
  shows "seed_collection rx (Some st) coll x = (None, Some st)"
  using assms by (simp add: seed_collection_def count_documents_ok)

lemma seed_collection_invalid:
  assumes "fault st = None" and "docs_of st coll = []"
  shows "seed_collection rx (Some st) coll (Inl e) = (Some e, Some st)"
  using assms by (simp add: seed_collection_def count_documents_ok)

lemma seed_collection_empty:
  assumes "fault st = None" and "docs_of st coll = []"
  shows "\<exists>st'. seed_collection rx (Some st) coll (Inr ds) = (None, Some st')
           \<and> fault st' = None
           \<and> length (docs_of st' coll) = length ds
           \<and> (\<forall>coll'. coll' \<noteq> coll \<longrightarrow> docs_of st' coll' = docs_of st coll')"
proof -
  have "seed_collection rx (Some st) coll (Inr ds) = create_documents (Some st) coll ds"
    using assms by (simp add: seed_collection_def count_documents_ok)
  with create_documents_ok [OF assms(1), of coll ds] assms(2) show ?thesis
    by simp
qed

text \<open>
  A block with a fixed, non-empty sample list: it raises nothing, leaves the collection
  non-empty, leaves it as it was when it had documents, and touches no other collection.
\<close>

lemma seed_collection_fixed:
  assumes "fault st = None" and "ds \<noteq> []"
  shows "\<exists>st'. seed_collection rx (Some st) coll (Inr ds) = (None, Some st')
           \<and> fault st' = None
           \<and> docs_of st' coll \<noteq> []
           \<and> (docs_of st coll \<noteq> [] \<longrightarrow> st' = st)
           \<and> (\<forall>coll'. coll' \<noteq> coll \<longrightarrow> docs_of st' coll' = docs_of st coll')"
proof (cases "docs_of st coll = []")
  case True
  obtain st' where st': "seed_collection rx (Some st) coll (Inr ds) = (None, Some st')"
      "fault st' = None" "length (docs_of st' coll) = length ds"
      "\<forall>coll'. coll' \<noteq> coll \<longrightarrow> docs_of st' coll' = docs_of st coll'"
    using seed_collection_empty [OF assms(1) True] by blast
  from st'(3) assms(2) have "docs_of st' coll \<noteq> []" by auto
  with st' True show ?thesis by blast
next
  case False
  with seed_collection_nonempty [OF assms(1) False] assms(1) show ?thesis by simp
qed
lemma samples_nonempty:
  assumes "samples c = Inr ds"
  shows "ds \<noteq> []"
proof -
  from assms obtain ps where ps: "those (map (validate_Project c) project_samples) = Some ps"
      and ds: "ds = map dump_Project ps"
    by (auto simp: samples_def split: option.splits)
  from ps have "map (validate_Project c) project_samples = map Some ps"
    by (simp add: those_map_Some)
  then have "length ps = length project_samples"
    by (metis length_map)
  then have "ps \<noteq> []"
    by (auto simp: project_samples_def)
  with ds show ?thesis by simp
qed

lemma project_block:
  assumes "fault st = None"
  shows "(\<exists>e. seed_collection rx (Some st) ''project'' (samples c) = (Some e, Some st))
       \<or> (\<exists>st'. seed_collection rx (Some st) ''project'' (samples c) = (None, Some st')
             \<and> fault st' = None
             \<and> docs_of st' ''project'' \<noteq> []
             \<and> (docs_of st ''project'' \<noteq> [] \<longrightarrow> st' = st)
             \<and> (\<forall>coll'. coll' \<noteq> ''project'' \<longrightarrow> docs_of st' coll' = docs_of st coll'))"
proof (cases "samples c")
  case (Inl e)
  show ?thesis
  proof (cases "docs_of st ''project'' = []")
    case True
    with seed_collection_invalid [OF assms True, of rx e] Inl show ?thesis by simp
  next
    case False
    with seed_collection_nonempty [OF assms False, of rx "samples c"] assms show ?thesis
      by simp
  qed
next
  case (Inr ds)
  then have "ds \<noteq> []" by (rule samples_nonempty)
  with seed_collection_fixed [OF assms this, of rx "''project''"] Inr show ?thesis
    by simp
qed

lemma seed_content_seeded:
  assumes "seeded st"
  shows "seed_content c rx (Some st) = (Inr [(''status'', JStr ''ok'')], Some st)"
proof -
  from assms have f: "fault st = None"
      and p: "docs_of st ''project'' \<noteq> []"
      and u: "docs_of st ''publication'' \<noteq> []"
      and b: "docs_of st ''blogpost'' \<noteq> []"
    by (simp_all add: seeded_def)
  show ?thesis
    by (simp add: seed_content_def seed_collection_nonempty [OF f p]
          seed_collection_nonempty [OF f u] seed_collection_nonempty [OF f b])
qed

lemma seed_content_fault:
  assumes "fault st = Some msg"
  shows "seed_content c rx (Some st) = (Inl (StoreError msg), Some st)"
  by (simp add: seed_content_def seed_collection_fault [OF assms])

lemma seed_content_unset: "seed_content c rx None = (Inl not_configured, None)"
  by (simp add: seed_content_def)

lemma seed_content_run:
  assumes "fault st = None"
  shows "(\<exists>e. seed_content c rx (Some st) = (Inl e, Some st))
       \<or> (\<exists>st'. seed_content c rx (Some st) = (Inr [(''status'', JStr ''ok'')], Some st')
             \<and> seeded st'
             \<and> (\<forall>coll \<in> {''project'', ''publication'', ''blogpost''}.
                   docs_of st coll \<noteq> [] \<longrightarrow> docs_of st' coll = docs_of st coll))"
proof -
  from project_block [OF assms, of rx c]
  consider (raised) e where "seed_collection rx (Some st) ''project'' (samples c) = (Some e, Some st)"
    | (passed) st1 where "seed_collection rx (Some st) ''project'' (samples c) = (None, Some st1)"
        "fault st1 = None" "docs_of st1 ''project'' \<noteq> []"
        "docs_of st ''project'' \<noteq> [] \<longrightarrow> st1 = st"
        "\<forall>coll'. coll' \<noteq> ''project'' \<longrightarrow> docs_of st1 coll' = docs_of st coll'"
    by blast
  then show ?thesis
  proof cases
    case raised
    then have "seed_content c rx (Some st) = (Inl e, Some st)"
      by (simp add: seed_content_def)
    then show ?thesis by blast
  next
    case passed
    have pubs: "pubs \<noteq> []" by (simp add: pubs_def)
    have posts: "posts \<noteq> []" by (simp add: posts_def)
    obtain st2 where st2:
        "seed_collection rx (Some st1) ''publication'' (Inr pubs) = (None, Some st2)"
        "fault st2 = None" "docs_of st2 ''publication'' \<noteq> []"
        "docs_of st1 ''publication'' \<noteq> [] \<longrightarrow> st2 = st1"
        "\<forall>coll'. coll' \<noteq> ''publication'' \<longrightarrow> docs_of st2 coll' = docs_of st1 coll'"
      using seed_collection_fixed [OF passed(2) pubs, of rx "''publication''"] by blast
    obtain st3 where st3:
        "seed_collection rx (Some st2) ''blogpost'' (Inr posts) = (None, Some st3)"
        "fault st3 = None" "docs_of st3 ''blogpost'' \<noteq> []"
        "docs_of st2 ''blogpost'' \<noteq> [] \<longrightarrow> st3 = st2"
        "\<forall>coll'. coll' \<noteq> ''blogpost'' \<longrightarrow> docs_of st3 coll' = docs_of st2 coll'"
      using seed_collection_fixed [OF st2(2) posts, of rx "''blogpost''"] by blast
    have run: "seed_content c rx (Some st) = (Inr [(''status'', JStr ''ok'')], Some st3)"
      by (simp add: seed_content_def passed(1) st2(1) st3(1))
    have p3: "docs_of st3 ''project'' = docs_of st1 ''project''"
      using st2(5) st3(5) by simp
    have u3: "docs_of st3 ''publication'' = docs_of st2 ''publication''"
      using st3(5) by simp
    have u1: "docs_of st1 ''publication'' = docs_of st ''publication''"
      using passed(5) by simp
    have b2: "docs_of st2 ''blogpost'' = docs_of st ''blogpost''"
      using passed(5) st2(5) by simp
    have seeded: "seeded st3"
      using st3(2,3) p3 passed(3) u3 st2(3) by (simp add: seeded_def)
    have gp: "docs_of st ''project'' \<noteq> [] \<longrightarrow> docs_of st3 ''project'' = docs_of st ''project''"
      using passed(4) p3 by auto
    have gu: "docs_of st ''publication'' \<noteq> [] \<longrightarrow>
        docs_of st3 ''publication'' = docs_of st ''publication''"
      using st2(4) u1 u3 by auto
    have gb: "docs_of st ''blogpost'' \<noteq> [] \<longrightarrow> docs_of st3 ''blogpost'' = docs_of st ''blogpost''"
      using st3(4) b2 by auto
    from run seeded gp gu gb show ?thesis by simp
  qed
qed

lemma seed_content_twice:
  "snd (seed_content c rx (snd (seed_content c rx db))) = snd (seed_content c rx db)"
proof (cases db)
  case None
  then show ?thesis by (simp add: seed_content_unset)
next
  case (Some st)
  show ?thesis
  proof (cases "fault st")
    case (Some msg)
    with \<open>db = Some st\<close> show ?thesis by (simp add: seed_content_fault)
  next
    case None
    from seed_content_run [OF None, of c rx]
    consider (raised) e where "seed_content c rx (Some st) = (Inl e, Some st)"
      | (passed) st' where "seed_content c rx (Some st) = (Inr [(''status'', JStr ''ok'')], Some st')"
          "seeded st'"
      by blast
    then show ?thesis
    proof cases
      case raised
      with \<open>db = Some st\<close> show ?thesis by simp
    next
      case passed
      with \<open>db = Some st\<close> show ?thesis by (simp add: seed_content_seeded)
    qed
  qed
qed

lemma seed_content_gated:
  assumes "seed_content c rx (Some st) = (r, Some st')"
    and "coll \<in> {''project'', ''publication'', ''blogpost''}"
    and "docs_of st coll \<noteq> []"
  shows "docs_of st' coll = docs_of st coll"
proof (cases "fault st")
  case (Some msg)
  with assms(1) show ?thesis by (simp add: seed_content_fault)
next
  case None
  from seed_content_run [OF None, of c rx] assms show ?thesis
    by auto
qed
lemma seed_content_success:
  assumes "seed_content c rx db = (Inr x, db')"
  shows "\<exists>st'. db' = Some st' \<and> seeded st' \<and> x = [(''status'', JStr ''ok'')]"
proof (cases db)
  case None
  with assms show ?thesis by (simp add: seed_content_unset)
next
  case (Some st)
  show ?thesis
  proof (cases "fault st")
    case (Some msg)
    with assms \<open>db = Some st\<close> show ?thesis by (simp add: seed_content_fault)
  next
    case None
    from seed_content_run [OF None, of c rx] assms \<open>db = Some st\<close> show ?thesis
      by auto
  qed
qed

text \<open>
  C3: the state of the store after a second call of \<open>seed_content\<close> is the state after the
  first. The emptiness check gates the inserts: a call leaves each of the collections
  \<open>project\<close>, \<open>publication\<close> and \<open>blogpost\<close> that holds documents before it exactly as it
  was. After a call that returned \<open>{status: ok}\<close> a second call returns the same and
  changes nothing.
\<close>

theorem seed_twice:
  "snd (seed_content c rx (snd (seed_content c rx db))) = snd (seed_content c rx db)
   \<and> (\<forall>st r st'. db = Some st \<longrightarrow> seed_content c rx db = (r, Some st') \<longrightarrow>
        (\<forall>coll \<in> {''project'', ''publication'', ''blogpost''}.
           docs_of st coll \<noteq> [] \<longrightarrow> docs_of st' coll = docs_of st coll))
   \<and> (\<forall>x db'. seed_content c rx db = (Inr x, db') \<longrightarrow> seed_content c rx db' = (Inr x, db'))"
proof (intro conjI allI impI ballI)
  show "snd (seed_content c rx (snd (seed_content c rx db))) = snd (seed_content c rx db)"
    by (rule seed_content_twice)
next
  fix st r st' coll
  assume "db = Some st" and "seed_content c rx db = (r, Some st')"
    and "coll \<in> {''project'', ''publication'', ''blogpost''}" and "docs_of st coll \<noteq> []"
  then show "docs_of st' coll = docs_of st coll"
    using seed_content_gated [of c rx st r st' coll] by simp
next
  fix x db'
  assume "seed_content c rx db = (Inr x, db')"
  then obtain st' where "db' = Some st'" "seeded st'" "x = [(''status'', JStr ''ok'')]"
    using seed_content_success by blast
  then show "seed_content c rx db' = (Inr x, db')"
    by (simp add: seed_content_seeded)
qed

theorem seed_twice_witness:
  "(\<exists>x st'. seed_content plain_coercion literal_regex (Some empty_store) = (Inr x, Some st')
        \<and> length (docs_of st' ''project'') = 3
        \<and> length (docs_of st' ''publication'') = 2
        \<and> length (docs_of st' ''blogpost'') = 4
        \<and> seed_content plain_coercion literal_regex (Some st') = (Inr x, Some st'))
   \<and> ''project'' \<in> {''project'', ''publication'', ''blogpost''}
   \<and> docs_of one_project_store ''project'' \<noteq> []
   \<and> (\<exists>r st'. seed_content plain_coercion literal_regex (Some one_project_store) = (r, Some st')
          \<and> docs_of st' ''project'' = [churn_document])"
proof -
  note success = seed_twice [of plain_coercion literal_regex "Some empty_store",
      THEN conjunct2, THEN conjunct2, rule_format]
  note gate = seed_twice [of plain_coercion literal_regex "Some one_project_store",
      THEN conjunct2, THEN conjunct1, rule_format]
  obtain a b where ab: "seed_content plain_coercion literal_regex (Some empty_store) = (a, b)"
    by (cases "seed_content plain_coercion literal_regex (Some empty_store)")
  have "case seed_content plain_coercion literal_regex (Some empty_store) of
          (Inr x, Some st') \<Rightarrow>
            length (docs_of st' ''project'') = 3 \<and> length (docs_of st' ''publication'') = 2
            \<and> length (docs_of st' ''blogpost'') = 4
        | _ \<Rightarrow> False"
    by code_simp
  then have ev: "case a of
          Inl e \<Rightarrow> False
        | Inr x \<Rightarrow>
            (case b of
               None \<Rightarrow> False
             | Some st' \<Rightarrow>
                 length (docs_of st' ''project'') = 3 \<and> length (docs_of st' ''publication'') = 2
                 \<and> length (docs_of st' ''blogpost'') = 4)"
    by (simp only: ab prod.case)
  obtain x where x: "a = Inr x"
    using ev by (cases a) simp_all
  obtain st' where st': "b = Some st'"
    using ev x by (cases b) simp_all
  have lens: "length (docs_of st' ''project'') = 3" "length (docs_of st' ''publication'') = 2"
      "length (docs_of st' ''blogpost'') = 4"
    using ev x st' by simp_all
  have first: "seed_content plain_coercion literal_regex (Some empty_store) = (Inr x, Some st')"
    by (simp only: ab x st')
  have second: "seed_content plain_coercion literal_regex (Some st') = (Inr x, Some st')"
    using first by (rule success)
  have part1: "\<exists>x st'. seed_content plain_coercion literal_regex (Some empty_store)
          = (Inr x, Some st')
        \<and> length (docs_of st' ''project'') = 3
        \<and> length (docs_of st' ''publication'') = 2
        \<and> length (docs_of st' ''blogpost'') = 4
        \<and> seed_content plain_coercion literal_regex (Some st') = (Inr x, Some st')"
    using first second lens by blast
  have docs: "docs_of one_project_store ''project'' = [churn_document]"
    by (simp add: docs_of_def one_project_store_def)
  have nonempty: "docs_of one_project_store ''project'' \<noteq> []"
    by (simp only: docs) simp
  have member: "''project'' \<in> {''project'', ''publication'', ''blogpost''}"
    by simp
  obtain r db2 where rd: "seed_content plain_coercion literal_regex (Some one_project_store)
      = (r, db2)"
    by (cases "seed_content plain_coercion literal_regex (Some one_project_store)")
  have "case snd (seed_content plain_coercion literal_regex (Some one_project_store)) of
          Some st \<Rightarrow> True | None \<Rightarrow> False"
    by code_simp
  then have "case db2 of Some st \<Rightarrow> True | None \<Rightarrow> False"
    by (simp only: rd snd_conv)
  then obtain st2 where st2: "db2 = Some st2"
    by (cases db2) simp_all
  have run: "seed_content plain_coercion literal_regex (Some one_project_store) = (r, Some st2)"
    by (simp only: rd st2)
  have "docs_of st2 ''project'' = docs_of one_project_store ''project''"
    by (rule gate [OF refl run member nonempty])
  then have kept: "docs_of st2 ''project'' = [churn_document]"
    by (simp only: docs)
  have part2:
    "\<exists>r st'. seed_content plain_coercion literal_regex (Some one_project_store) = (r, Some st')
          \<and> docs_of st' ''project'' = [churn_document]"
    using run kept by blast
  show ?thesis
    by (intro conjI part1 member nonempty part2)
qed

section \<open>The filter and the spec's wording\<close>

lemma field_equals_scalar:
  assumes "scalar_field d k" and "\<And>xs. v \<noteq> JList xs"
  shows "field_equals d k v \<longleftrightarrow> map_of d k = Some v"
  using assms
  by (auto simp: field_equals_def field_sat_def scalar_field_def split: option.splits jvalue.splits)

lemma regex_cond_literal:
  "regex_cond literal_regex t ''i'' = (\<lambda>x. case x of JStr s \<Rightarrow> ci_contains s t | _ \<Rightarrow> False)"
  by (simp add: regex_cond_def literal_regex_def fun_eq_iff split: jvalue.split)

lemma field_regex_scalar:
  assumes "scalar_field d k"
  shows "field_regex literal_regex d k t \<longleftrightarrow> text_has t d k"
  using assms
  by (auto simp: field_regex_def field_sat_def scalar_field_def text_has_def regex_cond_literal
        split: option.splits jvalue.splits)

lemma field_regex_tags:
  assumes "case map_of d ''tags'' of Some (JStr s) \<Rightarrow> False | _ \<Rightarrow> True"
  shows "field_regex literal_regex d ''tags'' t \<longleftrightarrow> any_tag_has t d"
  using assms
  by (auto simp: field_regex_def field_sat_def any_tag_has_def regex_cond_literal
        split: option.splits jvalue.splits)

text \<open>
  On documents shaped like projects, for parameters that are absent or truthy, and with a
  store whose search treats the pattern as plain text, the filter built by
  \<open>list_projects\<close> selects exactly the documents the spec's contract describes.
\<close>

lemma projects_query_agrees_with_spec:
  assumes "project_shaped doc" and "d \<noteq> Some []" and "y \<noteq> Some 0" and "q \<noteq> Some []"
  shows "matches literal_regex (projects_query d y q) doc = spec_filter d y q doc"
proof -
  from assms(1) have shape: "scalar_field doc ''domain''" "scalar_field doc ''year''"
      "scalar_field doc ''title''" "scalar_field doc ''summary''"
      "case map_of doc ''tags'' of Some (JStr s) \<Rightarrow> False | _ \<Rightarrow> True"
    by (simp_all add: project_shaped_def)
  show ?thesis
    using assms(2-4)
    by (simp add: projects_query_def spec_filter_def matches_append matches_Nil
          matches_equality matches_or field_equals_scalar [OF shape(1)]
          field_equals_scalar [OF shape(2)] field_regex_scalar [OF shape(3)]
          field_regex_scalar [OF shape(4)] field_regex_tags [OF shape(5)]
          split: option.split)
qed

end
